theory Spec2Isabelle
  imports Main "HOL-Library.AList"
begin

section \<open>The widget message dispatcher of ipyWidgetMessageDispatcher.ts\<close>

text \<open>
  The class \<^verbatim>\<open>IPyWidgetMessageDispatcher\<close> sits between a Jupyter kernel connection and
  the render surface. Its instance fields, the module-level table \<^verbatim>\<open>kernelCommTargets\<close>
  and everything it does to its collaborators (messages posted, kernel calls, log lines,
  promises settled) are kept in one record that every operation takes and returns.
  Exceptions are values, a suspended \<^verbatim>\<open>async\<close> function is a value of type \<open>task\<close>, and
  the one loop that may spin forever returns \<open>None\<close> when it does.
\<close>

subsection \<open>Frames and protocol messages\<close>

text \<open>A raw value handed over a socket or queued for it: a string, binary data, or
  \<^verbatim>\<open>undefined\<close> (the payload parameter of \<^verbatim>\<open>sendRawPayloadToKernelSocket\<close> is optional).\<close>

datatype rawdata = Text string | Binary "nat list" | Undefined

text \<open>A buffer attached to a message: an \<^verbatim>\<open>ArrayBuffer\<close>, or a \<^verbatim>\<open>DataView\<close> on a backing
  \<^verbatim>\<open>ArrayBuffer\<close> (its \<^verbatim>\<open>.buffer\<close>) with an offset and a length.\<close>

datatype buffer = ArrayBuffer "nat list" | DataView "nat list" nat nat

record wstate =
  model_module :: "string option"
  model_name :: "string option"

record cdata =
  widget_view :: bool
  data_method :: "string option"
  state :: "wstate option"

record content =
  data :: "cdata option"
  comm_id :: "string option"
  target_name :: "string option"

record header =
  msg_type :: string
  msg_id :: string

record msg =
  channel :: string
  header :: "header option"
  parent_msg_id :: string
  content :: "content option"
  buffers :: "buffer list"

text \<open>\<^verbatim>\<open>String.prototype.includes\<close>: the second string occurs in the first.\<close>

fun startsWith :: "string \<Rightarrow> string \<Rightarrow> bool" where
  "startsWith s [] = True"
| "startsWith [] (c # cs) = False"
| "startsWith (d # ds) (c # cs) = (d = c \<and> startsWith ds cs)"

fun str_includes :: "string \<Rightarrow> string \<Rightarrow> bool" where
  "str_includes [] sub = (sub = [])"
| "str_includes (d # ds) sub = (startsWith (d # ds) sub \<or> str_includes ds sub)"

subsection \<open>Collaborators\<close>

text \<open>
  Functions and constants the class imports from modules outside the repository's source
  files are parameters: the two deserialisers (\<open>None\<close> when they throw), the mirroring
  predicate on a raw string and on a message, the serialiser of binary frames, the uuid
  generator (the n-th uuid it hands out) and the two
  constants \<^verbatim>\<open>WIDGET_MIMETYPE\<close> and \<^verbatim>\<open>Identifiers.DefaultCommTarget\<close>.
\<close>

record collab =
  JSON_parse :: "string \<Rightarrow> msg option"
  deserialize :: "rawdata \<Rightarrow> string \<Rightarrow> msg option"
  shouldMirrorText :: "string \<Rightarrow> bool"
  shouldMirrorMsg :: "msg \<Rightarrow> bool"
  serializeDataViews :: "rawdata \<Rightarrow> string"
  deserializeDataViews :: "string \<Rightarrow> rawdata list option"
  generateUuid :: "nat \<Rightarrow> string"
  WIDGET_MIMETYPE :: string
  DefaultCommTarget :: string

subsection \<open>Kernel objects\<close>

record kconn =
  connRef :: nat
  kid :: string
  clientId :: string
  username :: string
  kmodel :: "(string \<times> string) option"

record isession =
  skernel :: "kconn option"

record ikernel =
  session :: "isession option"

record ksocket =
  sockRef :: nat
  protocol :: string

text \<open>\<^verbatim>\<open>kernel?.session?.kernel\<close>\<close>

definition sessionKernel :: "ikernel option \<Rightarrow> kconn option" where
  "sessionKernel k =
     (case k of None \<Rightarrow> None
      | Some k' \<Rightarrow> (case session k' of None \<Rightarrow> None | Some se \<Rightarrow> skernel se))"

subsection \<open>Promises, tasks and effects\<close>

text \<open>A \<^verbatim>\<open>Deferred\<close> is an index into a store of promise states. Resolving a settled
  promise changes nothing.\<close>

datatype settled = Pending | Resolved | ResolvedWith bool

datatype chan = Control | Shell

datatype operation = RegisterMessageHook | RemoveMessageHook

datatype post =
    IPyWidgets_msg string string
  | IPyWidgets_binary_msg string string
  | IPyWidgets_kernelOptions string string string "string \<times> string" string
  | IPyWidgets_onRestartKernel
  | IPyWidgets_mirror_execute string msg
  | IPyWidgets_registerCommTarget string
  | IPyWidgets_ExtensionOperationHandled string operation
  | IPyWidgets_MessageHookCall string string msg

datatype logEntry = LogError string | LogTrace string | ConsoleError string

datatype socketOp =
    RemoveReceiveHook nat nat
  | RemoveSendHook nat nat
  | AddReceiveHook nat nat
  | AddSendHook nat nat

datatype hookCall = KernelRegisterMessageHook string | KernelRemoveMessageHook string

datatype subscription = OnDidStartKernel | OnRestarted

record pendingMessage =
  resultPromise :: nat
  startTime :: nat

record fullHandle =
  fid :: string
  promise :: nat

text \<open>
  Where an \<^verbatim>\<open>async\<close> method stands: finished, rejected with an exception, or suspended
  at one of its \<^verbatim>\<open>await\<close>s on the promise named.
\<close>

datatype task =
    Completed
  | Rejected string
  | AwaitSocketAck nat
  | AwaitFullHandle nat
  | AwaitMirror nat

subsection \<open>The dispatcher state\<close>

record dispatcher =
  commTargetsRegistered :: "string list"
  pendingTargetNames :: "string list"
  kernel :: "ikernel option"
  messageHooks :: "string set"
  pendingHookRemovals :: "(string \<times> string) list"
  messageHookRequests :: "(string \<times> nat) list"
  disposables :: "subscription list"
  kernelRestartHandlerAttached :: bool
  kernelWasConnectedAtLeastOnce :: bool
  disposed :: bool
  pendingMessages :: "rawdata list"
  subscribedToKernelSocket :: bool
  waitingMessageIds :: "(string \<times> pendingMessage) list"
  outputWidgetIds :: "string option set"
  fullHandleMessage :: "fullHandle option"
  isUsingIPyWidgets :: bool
  kernelSocketHandlers :: "(nat \<times> nat \<times> nat) list"
  oldKernelId :: "string option"
  kernelCommTargets :: "(nat \<times> string list) list"
  KernelSocketMap :: "(string \<times> ksocket) list"
  providerKernel :: "ikernel option"
  deferreds :: "nat \<Rightarrow> settled"
  nextDeferred :: nat
  uuidCount :: nat
  nextHook :: nat
  clock :: nat
  sendThrows :: "bool list"
  posted :: "post list"
  displayMessages :: "msg list"
  logged :: "logEntry list"
  kernelSent :: "(chan \<times> msg) list"
  kernelCommTargetCalls :: "(nat \<times> string) list"
  kernelHookCalls :: "hookCall list"
  socketOps :: "socketOp list"
  unsubscribed :: "subscription list"

subsection \<open>Primitive effects\<close>

definition raisePostMessage :: "post \<Rightarrow> dispatcher \<Rightarrow> dispatcher" where
  "raisePostMessage p s = s\<lparr>posted := posted s @ [p]\<rparr>"

definition createDeferred :: "dispatcher \<Rightarrow> nat \<times> dispatcher" where
  "createDeferred s =
     (nextDeferred s,
      s\<lparr>deferreds := (deferreds s)(nextDeferred s := Pending),
        nextDeferred := Suc (nextDeferred s)\<rparr>)"

definition resolve :: "nat \<Rightarrow> settled \<Rightarrow> dispatcher \<Rightarrow> dispatcher" where
  "resolve p v s =
     s\<lparr>deferreds := (deferreds s)(p := (if deferreds s p = Pending then v else deferreds s p))\<rparr>"

definition logger :: "logEntry \<Rightarrow> dispatcher \<Rightarrow> dispatcher" where
  "logger e s = s\<lparr>logged := logged s @ [e]\<rparr>"

text \<open>A JavaScript \<^verbatim>\<open>Set\<close> of strings keeps insertion order: adding a member again leaves
  it where it is.\<close>

definition setAdd :: "'a \<Rightarrow> 'a list \<Rightarrow> 'a list" where
  "setAdd x xs = (if x \<in> set xs then xs else xs @ [x])"

definition setDelete :: "'a \<Rightarrow> 'a list \<Rightarrow> 'a list" where
  "setDelete x xs = filter (\<lambda>y. y \<noteq> x) xs"

text \<open>\<^verbatim>\<open>KernelSocketMap.get(id)?.protocol || ''\<close>\<close>

definition socketProtocol :: "dispatcher \<Rightarrow> string \<Rightarrow> string" where
  "socketProtocol s i = (case map_of (KernelSocketMap s) i of None \<Rightarrow> [] | Some so \<Rightarrow> protocol so)"

subsection \<open>The outbound queue\<close>

definition normalizeBuffer :: "buffer \<Rightarrow> buffer" where
  "normalizeBuffer b = (case b of DataView backing off len \<Rightarrow> ArrayBuffer backing | ArrayBuffer x \<Rightarrow> ArrayBuffer x)"

text \<open>Lines 459 to 460 of \<^verbatim>\<open>sendPendingMessages\<close>: a string is parsed as JSON, anything
  else is deserialised with the protocol. \<open>None\<close> when the parser throws.\<close>

definition decodePending :: "collab \<Rightarrow> string \<Rightarrow> rawdata \<Rightarrow> msg option" where
  "decodePending c proto message =
     (case message of Text t \<Rightarrow> JSON_parse c t | _ \<Rightarrow> deserialize c message proto)"

text \<open>Lines 463 to 473: data views are replaced by their backing buffers.\<close>

definition outgoing :: "msg \<Rightarrow> msg" where
  "outgoing m = (if buffers m \<noteq> [] then m\<lparr>buffers := map normalizeBuffer (buffers m)\<rparr> else m)"

definition sendChannel :: "msg \<Rightarrow> chan" where
  "sendChannel m = (if channel m = ''control'' then Control else Shell)"

text \<open>
  \<^verbatim>\<open>sendControlMessage\<close> and \<^verbatim>\<open>sendShellMessage\<close> of the kernel connection. Whether a call
  throws is the kernel's business: \<open>sendThrows\<close> lists the outcomes of the calls to come
  (\<open>True\<close>: the call throws), one consumed per call, and a call succeeds once the list is
  used up. The result is \<open>True\<close> when the message was handed over.
\<close>

definition kernelSend :: "chan \<Rightarrow> msg \<Rightarrow> dispatcher \<Rightarrow> bool \<times> dispatcher" where
  "kernelSend ch m s =
     (case sendThrows s of
        [] \<Rightarrow> (True, s\<lparr>kernelSent := kernelSent s @ [(ch, m)]\<rparr>)
      | t # rest \<Rightarrow>
          if t then (False, s\<lparr>sendThrows := rest\<rparr>)
          else (True, s\<lparr>sendThrows := rest, kernelSent := kernelSent s @ [(ch, m)]\<rparr>))"

text \<open>The \<^verbatim>\<open>while\<close> loop of \<^verbatim>\<open>sendPendingMessages\<close> (lines 453 to 487), with its
  \<^verbatim>\<open>try\<close>/\<^verbatim>\<open>catch\<close>: the head is shifted off only after the send call has returned.\<close>

function sendPendingLoop :: "collab \<Rightarrow> string \<Rightarrow> dispatcher \<Rightarrow> dispatcher" where
  "sendPendingLoop c proto s =
     (case pendingMessages s of
        [] \<Rightarrow> s
      | message # rest \<Rightarrow>
          (case decodePending c proto message of
             None \<Rightarrow> logger (LogError ''Failed to send message to Kernel'') s
           | Some m \<Rightarrow>
               if fst (kernelSend (sendChannel m) (outgoing m) s)
               then sendPendingLoop c proto
                      ((snd (kernelSend (sendChannel m) (outgoing m) s))
                         \<lparr>pendingMessages := tl (pendingMessages (snd (kernelSend (sendChannel m) (outgoing m) s)))\<rparr>)
               else logger (LogError ''Failed to send message to Kernel'')
                      (snd (kernelSend (sendChannel m) (outgoing m) s))))"
  by pat_completeness auto
termination
  by (relation "measure (\<lambda>(c, proto, s). length (pendingMessages s))")
     (auto simp: kernelSend_def split: list.splits if_splits)

declare sendPendingLoop.simps [simp del]

definition sendPendingMessages :: "collab \<Rightarrow> string \<Rightarrow> dispatcher \<Rightarrow> dispatcher" where
  "sendPendingMessages c proto s =
     (case sessionKernel (kernel s) of
        None \<Rightarrow> s
      | Some k \<Rightarrow> sendPendingLoop c (if proto = [] then socketProtocol s (kid k) else proto) s)"

definition sendRawPayloadToKernelSocket :: "collab \<Rightarrow> rawdata \<Rightarrow> dispatcher \<Rightarrow> dispatcher" where
  "sendRawPayloadToKernelSocket c payload s =
     sendPendingMessages c [] (s\<lparr>pendingMessages := pendingMessages s @ [payload]\<rparr>)"

subsection \<open>Message hook responses\<close>

record hookResponse =
  requestId :: string
  parentId :: string
  msgType :: string
  result :: bool

definition handleMessageHookResponse :: "hookResponse \<Rightarrow> dispatcher \<Rightarrow> dispatcher" where
  "handleMessageHookResponse args s =
     (case map_of (messageHookRequests s) (requestId args) of
        None \<Rightarrow> s
      | Some p \<Rightarrow>
          resolve p (ResolvedWith (if str_includes (msgType args) ''comm'' then True else result args))
            (s\<lparr>messageHookRequests := AList.delete (requestId args) (messageHookRequests s)\<rparr>))"

subsection \<open>Round trips with the render surface\<close>

definition onKernelSocketResponse :: "string \<Rightarrow> dispatcher \<Rightarrow> dispatcher" where
  "onKernelSocketResponse i s =
     (case map_of (waitingMessageIds s) i of
        None \<Rightarrow> s
      | Some pending \<Rightarrow>
          resolve (resultPromise pending) Resolved
            (s\<lparr>waitingMessageIds := AList.delete i (waitingMessageIds s)\<rparr>))"

definition iopubMessageHandled :: "string \<Rightarrow> dispatcher \<Rightarrow> dispatcher" where
  "iopubMessageHandled msgId s =
     (case fullHandleMessage s of
        None \<Rightarrow> s
      | Some fh \<Rightarrow>
          if fid fh = msgId then (resolve (promise fh) Resolved s)\<lparr>fullHandleMessage := None\<rparr>
          else s)"

definition sendRestartKernel :: "dispatcher \<Rightarrow> dispatcher" where
  "sendRestartKernel s = raisePostMessage IPyWidgets_onRestartKernel s"

definition sendKernelOptions :: "string \<Rightarrow> dispatcher \<Rightarrow> dispatcher" where
  "sendKernelOptions proto s =
     (case sessionKernel (kernel s) of
        None \<Rightarrow> s
      | Some k \<Rightarrow>
          raisePostMessage
            (IPyWidgets_kernelOptions (kid k) (clientId k) (username k)
               (case kmodel k of None \<Rightarrow> ([], []) | Some m \<Rightarrow> m)
               (if proto = [] then socketProtocol s (kid k) else proto)) s)"

subsection \<open>Comm targets\<close>

text \<open>Lines 502 to 515 of \<^verbatim>\<open>registerCommTargets\<close>: one name is moved from the pending set
  to the registered set and, unless it is the default target or a third party has it,
  passed to the kernel connection.\<close>

definition registerOneTarget :: "collab \<Rightarrow> ikernel \<Rightarrow> string \<Rightarrow> dispatcher \<Rightarrow> dispatcher" where
  "registerOneTarget c kern targetName s =
     (let s1 = logger (LogTrace (''Registering commtarget '' @ targetName)) s;
          s2 = s1\<lparr>commTargetsRegistered := setAdd targetName (commTargetsRegistered s1),
                  pendingTargetNames := setDelete targetName (pendingTargetNames s1)\<rparr>
      in case sessionKernel (Some kern) of
           None \<Rightarrow> s2
         | Some k \<Rightarrow>
             if targetName \<noteq> DefaultCommTarget c \<and>
                \<not> (case map_of (kernelCommTargets s2) (connRef k) of
                      None \<Rightarrow> False | Some ts \<Rightarrow> targetName \<in> set ts)
             then s2\<lparr>kernelCommTargetCalls := kernelCommTargetCalls s2 @ [(connRef k, targetName)]\<rparr>
             else s2)"

text \<open>
  The \<^verbatim>\<open>while\<close> loop of \<^verbatim>\<open>registerCommTargets\<close>. The first pending name is looked at: an
  empty name is falsy and the loop \<^verbatim>\<open>continue\<close>s on the unchanged set, a registered name
  ends the call with the name still pending, any other name is registered.
\<close>

partial_function (option) registerCommTargets :: "collab \<Rightarrow> ikernel \<Rightarrow> dispatcher \<Rightarrow> dispatcher option" where
  "registerCommTargets c kern s =
     (case pendingTargetNames s of
        [] \<Rightarrow> Some s
      | targetName # rest \<Rightarrow>
          if targetName = [] then registerCommTargets c kern s
          else if targetName \<in> set (commTargetsRegistered s) then Some s
          else registerCommTargets c kern (registerOneTarget c kern targetName s))"

declare registerCommTargets.simps [code]

definition registerCommTargetFor3rdPartyExtensions :: "kconn \<Rightarrow> string \<Rightarrow> dispatcher \<Rightarrow> dispatcher" where
  "registerCommTargetFor3rdPartyExtensions k targetName s =
     (case map_of (kernelCommTargets s) (connRef k) of
        None \<Rightarrow> s
      | Some ts \<Rightarrow>
          raisePostMessage (IPyWidgets_registerCommTarget targetName)
            (s\<lparr>kernelCommTargets := AList.update (connRef k) (setAdd targetName ts) (kernelCommTargets s)\<rparr>))"

definition removeCommTargetFor3rdPartyExtensions :: "kconn \<Rightarrow> string \<Rightarrow> dispatcher \<Rightarrow> dispatcher" where
  "removeCommTargetFor3rdPartyExtensions k targetName s =
     (case map_of (kernelCommTargets s) (connRef k) of
        None \<Rightarrow> s
      | Some ts \<Rightarrow>
          s\<lparr>kernelCommTargets := AList.update (connRef k) (setDelete targetName ts) (kernelCommTargets s)\<rparr>)"

subsection \<open>Subscribing to the kernel socket\<close>

text \<open>Lines 221 to 229: the hooks on the socket of the old kernel id are removed.\<close>

definition removeOldHandlers :: "string option \<Rightarrow> dispatcher \<Rightarrow> dispatcher" where
  "removeOldHandlers oldId s =
     (case oldId of
        None \<Rightarrow> s
      | Some i \<Rightarrow>
          if i = [] then s
          else (case map_of (KernelSocketMap s) i of
                  None \<Rightarrow> s
                | Some oldSocket \<Rightarrow>
                    (case map_of (kernelSocketHandlers s) (sockRef oldSocket) of
                       None \<Rightarrow> s
                     | Some (receiveHook, sendHook) \<Rightarrow>
                         s\<lparr>socketOps := socketOps s @
                              [RemoveReceiveHook (sockRef oldSocket) receiveHook,
                               RemoveSendHook (sockRef oldSocket) sendHook]\<rparr>)))"

text \<open>Lines 233 to 241, the body of \<^verbatim>\<open>if (this.kernelWasConnectedAtLeastOnce)\<close>.\<close>

definition discardOnRestart :: "dispatcher \<Rightarrow> dispatcher" where
  "discardOnRestart s =
     (let s1 = s\<lparr>pendingMessages := []\<rparr>;
          s2 = fold (\<lambda>(i, d). resolve (resultPromise d) Resolved) (waitingMessageIds s1) s1;
          s3 = s2\<lparr>waitingMessageIds := []\<rparr>;
          s4 = fold (\<lambda>(i, m). resolve m (ResolvedWith False)) (messageHookRequests s3) s3;
          s5 = s4\<lparr>messageHookRequests := [], messageHooks := {}\<rparr>
      in sendRestartKernel s5)"

text \<open>Lines 248 to 268: the connection gets its entry in \<^verbatim>\<open>kernelCommTargets\<close>, the two
  hooks are bound and added to the new socket, and the kernel options are posted.\<close>

definition attachToSocket :: "kconn \<Rightarrow> ksocket \<Rightarrow> dispatcher \<Rightarrow> dispatcher" where
  "attachToSocket k newSocket s =
     (let s1 = (if map_of (kernelCommTargets s) (connRef k) = None
                then s\<lparr>kernelCommTargets := AList.update (connRef k) [] (kernelCommTargets s)\<rparr>
                else s);
          s2 = s1\<lparr>kernelWasConnectedAtLeastOnce := True\<rparr>;
          s3 = s2\<lparr>socketOps := socketOps s2 @
                     [AddReceiveHook (sockRef newSocket) (nextHook s2),
                      AddSendHook (sockRef newSocket) (Suc (nextHook s2))],
                  kernelSocketHandlers :=
                     AList.update (sockRef newSocket) (nextHook s2, Suc (nextHook s2)) (kernelSocketHandlers s2),
                  nextHook := Suc (Suc (nextHook s2))\<rparr>
      in sendKernelOptions (protocol newSocket) s3)"

definition subscribeToKernelSocketImpl ::
  "collab \<Rightarrow> ikernel \<Rightarrow> string option \<Rightarrow> dispatcher \<Rightarrow> dispatcher option" where
  "subscribeToKernelSocketImpl c kern oldId s =
     (let s1 = removeOldHandlers oldId s;
          s2 = (if kernelWasConnectedAtLeastOnce s1 then discardOnRestart s1 else s1)
      in case sessionKernel (Some kern) of
           None \<Rightarrow> Some s2
         | Some k \<Rightarrow>
             if kid k = [] then Some s2
             else (case map_of (KernelSocketMap s2) (kid k) of
                     None \<Rightarrow> Some s2
                   | Some newSocket \<Rightarrow>
                       (case registerCommTargets c kern (attachToSocket k newSocket s2) of
                          None \<Rightarrow> None
                        | Some s3 \<Rightarrow> Some (sendPendingMessages c (protocol newSocket) s3))))"

text \<open>\<^verbatim>\<open>subscribeToKernelSocket\<close>; the closure variable \<^verbatim>\<open>oldKernelId\<close> of its socket-change
  handler is the field \<open>oldKernelId\<close>.\<close>

definition subscribeToKernelSocket :: "collab \<Rightarrow> ikernel \<Rightarrow> dispatcher \<Rightarrow> dispatcher option" where
  "subscribeToKernelSocket c kern s =
     (if subscribedToKernelSocket s \<or> session kern = None then Some s
      else (case subscribeToKernelSocketImpl c kern None (s\<lparr>subscribedToKernelSocket := True\<rparr>) of
              None \<Rightarrow> None
            | Some s1 \<Rightarrow> Some (s1\<lparr>oldKernelId := map_option kid (sessionKernel (Some kern))\<rparr>)))"

text \<open>The handler given to \<^verbatim>\<open>onDidKernelSocketChange\<close> (lines 208 to 211).\<close>

definition onDidKernelSocketChange :: "collab \<Rightarrow> ikernel \<Rightarrow> dispatcher \<Rightarrow> dispatcher option" where
  "onDidKernelSocketChange c kern s =
     (case subscribeToKernelSocketImpl c kern (oldKernelId s) s of
        None \<Rightarrow> None
      | Some s1 \<Rightarrow>
          Some (s1\<lparr>oldKernelId := Some (case sessionKernel (Some kern) of None \<Rightarrow> [] | Some k \<Rightarrow> kid k)\<rparr>))"

definition getKernel :: "dispatcher \<Rightarrow> ikernel option \<times> dispatcher" where
  "getKernel s =
     (let s1 = (if (case kernel s of None \<Rightarrow> True | Some k \<Rightarrow> session k = None)
                then s\<lparr>kernel := providerKernel s\<rparr> else s);
          s2 = (if kernel s1 \<noteq> None \<and> \<not> kernelRestartHandlerAttached s1
                then s1\<lparr>kernelRestartHandlerAttached := True,
                        disposables := disposables s1 @ [OnRestarted]\<rparr>
                else s1)
      in (kernel s2, s2))"

definition initialize :: "collab \<Rightarrow> dispatcher \<Rightarrow> dispatcher option" where
  "initialize c s =
     (case fst (getKernel s) of
        None \<Rightarrow> Some (snd (getKernel s))
      | Some kern \<Rightarrow>
          (case subscribeToKernelSocket c kern (snd (getKernel s)) of
             None \<Rightarrow> None
           | Some s1 \<Rightarrow> registerCommTargets c kern s1))"

definition registerCommTarget :: "collab \<Rightarrow> string \<Rightarrow> dispatcher \<Rightarrow> dispatcher option" where
  "registerCommTarget c targetName s =
     initialize c (s\<lparr>pendingTargetNames := setAdd targetName (pendingTargetNames s)\<rparr>)"

definition handleKernelRestarts :: "collab \<Rightarrow> dispatcher \<Rightarrow> dispatcher option" where
  "handleKernelRestarts c s =
     (case kernel s of
        None \<Rightarrow> Some s
      | Some kern \<Rightarrow>
          if disposed s \<or> commTargetsRegistered s = [] \<or> session kern = None then Some s
          else (case subscribeToKernelSocket c kern
                       (s\<lparr>pendingTargetNames := fold setAdd (commTargetsRegistered s) (pendingTargetNames s),
                          commTargetsRegistered := []\<rparr>) of
                  None \<Rightarrow> None
                | Some s1 \<Rightarrow> registerCommTargets c kern s1))"

subsection \<open>Disposal\<close>

function disposeLoop :: "dispatcher \<Rightarrow> dispatcher" where
  "disposeLoop s =
     (case disposables s of
        [] \<Rightarrow> s
      | disposable # rest \<Rightarrow>
          disposeLoop (s\<lparr>disposables := rest, unsubscribed := unsubscribed s @ [disposable]\<rparr>))"
  by pat_completeness auto
termination
  by (relation "measure (\<lambda>s. length (disposables s))") auto

declare disposeLoop.simps [simp del]

definition dispose :: "dispatcher \<Rightarrow> dispatcher" where
  "dispose s = disposeLoop (s\<lparr>disposed := True\<rparr>)"

subsection \<open>Mirroring of execute requests\<close>

definition mirrorExecuteRequest :: "header \<Rightarrow> msg \<Rightarrow> dispatcher \<Rightarrow> nat \<times> dispatcher" where
  "mirrorExecuteRequest h m s =
     (let p = fst (createDeferred s);
          s1 = snd (createDeferred s);
          s2 = s1\<lparr>waitingMessageIds :=
                    AList.update (msg_id h) \<lparr>resultPromise = p, startTime = clock s1\<rparr> (waitingMessageIds s1)\<rparr>
      in (p, raisePostMessage (IPyWidgets_mirror_execute (msg_id h) m) s2))"

text \<open>Lines 304 to 313 (and again 319 to 328) of \<^verbatim>\<open>mirrorSend\<close>, on a parsed message.
  Reading \<^verbatim>\<open>msg.header.msg_type\<close> of a message without a header throws.\<close>

definition mirrorParsed :: "collab \<Rightarrow> msg \<Rightarrow> dispatcher \<Rightarrow> task \<times> dispatcher" where
  "mirrorParsed c m s =
     (if channel m = ''shell'' then
        (case header m of
           None \<Rightarrow> (Rejected ''TypeError'', s)
         | Some h \<Rightarrow>
             if msg_type h = ''execute_request'' then
               (if \<not> shouldMirrorMsg c m then (Completed, s)
                else if isUsingIPyWidgets (snd (mirrorExecuteRequest h m s))
                     then (AwaitMirror (fst (mirrorExecuteRequest h m s)), snd (mirrorExecuteRequest h m s))
                     else (Completed, snd (mirrorExecuteRequest h m s)))
             else (Completed, s))
      else (Completed, s))"

text \<open>\<^verbatim>\<open>mirrorSend\<close>: the string branch parses and mirrors with no handler around it, the
  branch for other data catches and logs whatever is thrown.\<close>

definition mirrorSend :: "collab \<Rightarrow> string \<Rightarrow> rawdata \<Rightarrow> dispatcher \<Rightarrow> task \<times> dispatcher" where
  "mirrorSend c proto d s =
     (case d of
        Text t \<Rightarrow>
          if str_includes t ''shell'' \<and> str_includes t ''execute_request'' then
            (case JSON_parse c t of
               None \<Rightarrow> (Rejected ''SyntaxError'', s)
             | Some m \<Rightarrow> mirrorParsed c m s)
          else (Completed, s)
      | _ \<Rightarrow>
          (case deserialize c d proto of
             None \<Rightarrow> (Completed, logger (LogError ''Failed to mirror message to kernel'') s)
           | Some m \<Rightarrow>
               (case fst (mirrorParsed c m s) of
                  Rejected e \<Rightarrow>
                    (Completed, logger (LogError ''Failed to mirror message to kernel'') (snd (mirrorParsed c m s)))
                | t \<Rightarrow> (t, snd (mirrorParsed c m s)))))"

subsection \<open>Inbound kernel frames\<close>

text \<open>Optional chaining on a message.\<close>

definition header_msg_type :: "msg \<Rightarrow> string option" where
  "header_msg_type m = map_option msg_type (header m)"

definition content_comm_id :: "msg \<Rightarrow> string option" where
  "content_comm_id m = (case content m of None \<Rightarrow> None | Some ct \<Rightarrow> comm_id ct)"

definition content_data :: "msg \<Rightarrow> cdata option" where
  "content_data m = (case content m of None \<Rightarrow> None | Some ct \<Rightarrow> data ct)"

definition content_data_method :: "msg \<Rightarrow> string option" where
  "content_data_method m = (case content_data m of None \<Rightarrow> None | Some d \<Rightarrow> data_method d)"

definition content_data_state :: "msg \<Rightarrow> wstate option" where
  "content_data_state m = (case content_data m of None \<Rightarrow> None | Some d \<Rightarrow> state d)"

definition messageNeedsFullHandle :: "msg \<Rightarrow> dispatcher \<Rightarrow> bool" where
  "messageNeedsFullHandle m s =
     (channel m = ''iopub'' \<and>
      header_msg_type m = Some ''comm_msg'' \<and>
      content_data_method m = Some ''update'' \<and>
      content_comm_id m \<in> outputWidgetIds s)"

text \<open>\<^verbatim>\<open>KernelMessage.isDisplayDataMsg\<close> of the Jupyter library compares
  \<^verbatim>\<open>msg.header.msg_type\<close> with \<^verbatim>\<open>display_data\<close>; on a message without a header the read
  throws (\<open>None\<close>).\<close>

definition isDisplayDataMsg :: "msg \<Rightarrow> bool option" where
  "isDisplayDataMsg m =
     (case header m of None \<Rightarrow> None | Some h \<Rightarrow> Some (msg_type h = ''display_data''))"

text \<open>Lines 374 to 393 of \<^verbatim>\<open>onKernelSocketMessage\<close>: the frame is posted to the render
  surface. The result is the message deserialised on the way, if any; \<open>Inl\<close> when the
  deserialiser or the display-data test throws.\<close>

definition forwardFrame ::
  "collab \<Rightarrow> string \<Rightarrow> rawdata \<Rightarrow> string \<Rightarrow> dispatcher \<Rightarrow> (string + msg option) \<times> dispatcher" where
  "forwardFrame c proto d msgUuid s =
     (case d of
        Text t \<Rightarrow>
          if shouldMirrorText c t then
            (let s1 = raisePostMessage (IPyWidgets_msg msgUuid t) s in
             if str_includes t ''display_data'' then
               (case deserialize c d proto of
                  None \<Rightarrow> (Inl ''deserialize'', s1)
                | Some m \<Rightarrow>
                    (case isDisplayDataMsg m of
                       None \<Rightarrow> (Inl ''TypeError'', s1)
                     | Some display \<Rightarrow>
                         (Inr (Some m),
                          if display then s1\<lparr>displayMessages := displayMessages s1 @ [m]\<rparr> else s1)))
             else (Inr None, s1))
          else (Inr None, s)
      | _ \<Rightarrow>
          (Inr None,
           raisePostMessage (IPyWidgets_binary_msg msgUuid (serializeDataViews c d))
             (logger (ConsoleError (serializeDataViews c d)) s)))"

definition mustDeserialize :: "collab \<Rightarrow> rawdata \<Rightarrow> bool" where
  "mustDeserialize c d =
     (case d of
        Text t \<Rightarrow>
          str_includes t (WIDGET_MIMETYPE c) \<or> str_includes t (DefaultCommTarget c) \<or>
          str_includes t ''comm_open'' \<or> str_includes t ''comm_close'' \<or> str_includes t ''comm_msg''
      | _ \<Rightarrow> True)"

definition isIPYWidgetOutputModelOpen :: "msg \<Rightarrow> bool" where
  "isIPYWidgetOutputModelOpen m =
     (header_msg_type m = Some ''comm_open'' \<and>
      (case content_data_state m of None \<Rightarrow> None | Some st \<Rightarrow> model_module st) = Some ''@jupyter-widgets/output'' \<and>
      (case content_data_state m of None \<Rightarrow> None | Some st \<Rightarrow> model_name st) = Some ''OutputModel'')"

definition isIPYWidgetOutputModelClose :: "msg \<Rightarrow> dispatcher \<Rightarrow> bool" where
  "isIPYWidgetOutputModelClose m s =
     (header_msg_type m = Some ''comm_close'' \<and> content_comm_id m \<in> outputWidgetIds s)"

text \<open>Lines 410 to 436, on the deserialised message; \<open>ack\<close> is the promise registered for
  this frame in \<open>waitingMessageIds\<close>.\<close>

definition classify :: "collab \<Rightarrow> nat \<Rightarrow> msg \<Rightarrow> dispatcher \<Rightarrow> task \<times> dispatcher" where
  "classify c ack m s =
     (let s1 = (if (case content_data m of
                      None \<Rightarrow> False
                    | Some d \<Rightarrow>
                        widget_view d \<or>
                        (case content m of None \<Rightarrow> None | Some ct \<Rightarrow> target_name ct) = Some (DefaultCommTarget c))
                then s\<lparr>isUsingIPyWidgets := True\<rparr> else s)
      in if isIPYWidgetOutputModelOpen m then
           (Completed, s1\<lparr>outputWidgetIds := insert (content_comm_id m) (outputWidgetIds s1)\<rparr>)
         else if isIPYWidgetOutputModelClose m s1 then
           (case content m of
              None \<Rightarrow> (Rejected ''TypeError'', s1)
            | Some ct \<Rightarrow> (Completed, s1\<lparr>outputWidgetIds := outputWidgetIds s1 - {comm_id ct}\<rparr>))
         else if messageNeedsFullHandle m s1 then
           (case header m of
              None \<Rightarrow> (Rejected ''TypeError'', s1)
            | Some h \<Rightarrow>
                (AwaitSocketAck ack,
                 (snd (createDeferred s1))
                   \<lparr>fullHandleMessage := Some \<lparr>fid = msg_id h, promise = fst (createDeferred s1)\<rparr>\<rparr>))
         else (Completed, s1))"

definition onKernelSocketMessage :: "collab \<Rightarrow> string \<Rightarrow> rawdata \<Rightarrow> dispatcher \<Rightarrow> task \<times> dispatcher" where
  "onKernelSocketMessage c proto d s =
     (let msgUuid = generateUuid c (uuidCount s);
          s0 = s\<lparr>uuidCount := Suc (uuidCount s)\<rparr>;
          ack = fst (createDeferred s0);
          s1 = (snd (createDeferred s0))
                 \<lparr>waitingMessageIds :=
                    AList.update msgUuid \<lparr>resultPromise = ack, startTime = clock s0\<rparr> (waitingMessageIds s0)\<rparr>
      in case fst (forwardFrame c proto d msgUuid s1) of
           Inl e \<Rightarrow> (Rejected e, snd (forwardFrame c proto d msgUuid s1))
         | Inr deserializedMessage \<Rightarrow>
             if mustDeserialize c d then
               (case (case deserializedMessage of Some m \<Rightarrow> Some m | None \<Rightarrow> deserialize c d proto) of
                  None \<Rightarrow> (Rejected ''deserialize'', snd (forwardFrame c proto d msgUuid s1))
                | Some m \<Rightarrow>
                    if \<not> shouldMirrorMsg c m then (Completed, snd (forwardFrame c proto d msgUuid s1))
                    else classify c ack m (snd (forwardFrame c proto d msgUuid s1)))
             else (Completed, snd (forwardFrame c proto d msgUuid s1)))"

text \<open>
  What a suspended method does when the scheduler runs it again. While the promise it
  awaits is pending nothing happens. After the acknowledgement \<^verbatim>\<open>onKernelSocketMessage\<close>
  reads \<^verbatim>\<open>this.fullHandleMessage.promise\<close> (line 434), which throws when the field is
  \<^verbatim>\<open>undefined\<close> by then; after the full-handle promise it clears the field (line 435).
\<close>

definition resume :: "task \<Rightarrow> dispatcher \<Rightarrow> task \<times> dispatcher" where
  "resume t s =
     (case t of
        AwaitSocketAck p \<Rightarrow>
          if deferreds s p = Pending then (t, s)
          else (case fullHandleMessage s of
                  None \<Rightarrow> (Rejected ''TypeError'', s)
                | Some fh \<Rightarrow> (AwaitFullHandle (promise fh), s))
      | AwaitFullHandle q \<Rightarrow>
          if deferreds s q = Pending then (t, s) else (Completed, s\<lparr>fullHandleMessage := None\<rparr>)
      | AwaitMirror p \<Rightarrow>
          if deferreds s p = Pending then (t, s) else (Completed, s)
      | _ \<Rightarrow> (t, s))"

subsection \<open>Message hooks\<close>

definition removeMessageHook :: "string \<Rightarrow> dispatcher \<Rightarrow> dispatcher" where
  "removeMessageHook msgId s =
     (if sessionKernel (kernel s) \<noteq> None \<and> msgId \<in> messageHooks s
      then s\<lparr>messageHooks := messageHooks s - {msgId},
             kernelHookCalls := kernelHookCalls s @ [KernelRemoveMessageHook msgId]\<rparr>
      else s)"

definition registerMessageHook :: "string \<Rightarrow> dispatcher \<Rightarrow> dispatcher" where
  "registerMessageHook msgId s =
     raisePostMessage (IPyWidgets_ExtensionOperationHandled msgId RegisterMessageHook)
       (if sessionKernel (kernel s) \<noteq> None \<and> msgId \<notin> messageHooks s
        then s\<lparr>messageHooks := insert msgId (messageHooks s),
               kernelHookCalls := kernelHookCalls s @ [KernelRegisterMessageHook msgId]\<rparr>
        else s)"

definition possiblyRemoveMessageHook :: "string \<Rightarrow> string option \<Rightarrow> dispatcher \<Rightarrow> dispatcher" where
  "possiblyRemoveMessageHook hookMsgId lastHookedMsgId s =
     raisePostMessage (IPyWidgets_ExtensionOperationHandled hookMsgId RemoveMessageHook)
       (case lastHookedMsgId of
          None \<Rightarrow> removeMessageHook hookMsgId s
        | Some l \<Rightarrow>
            if l = [] then removeMessageHook hookMsgId s
            else s\<lparr>pendingHookRemovals := AList.update l hookMsgId (pendingHookRemovals s)\<rparr>)"

text \<open>\<^verbatim>\<open>messageHookCallback\<close> returns the promise of the decision, or is rejected when the
  message has no header to read the id from.\<close>

definition messageHookCallback :: "collab \<Rightarrow> msg \<Rightarrow> dispatcher \<Rightarrow> (string + nat) \<times> dispatcher" where
  "messageHookCallback c m s =
     (let p = fst (createDeferred s);
          s1 = snd (createDeferred s);
          rid = generateUuid c (uuidCount s1);
          s2 = s1\<lparr>uuidCount := Suc (uuidCount s1)\<rparr>;
          s3 = (if parent_msg_id m \<in> messageHooks s2
                then raisePostMessage (IPyWidgets_MessageHookCall rid (parent_msg_id m) m)
                       (s2\<lparr>messageHookRequests := AList.update rid p (messageHookRequests s2)\<rparr>)
                else resolve p (ResolvedWith True) s2)
      in case header m of
           None \<Rightarrow> (Inl ''TypeError'', s3)
         | Some h \<Rightarrow>
             (case map_of (pendingHookRemovals s3) (msg_id h) of
                None \<Rightarrow> (Inr p, s3)
              | Some hookId \<Rightarrow>
                  (Inr p,
                   removeMessageHook hookId
                     (s3\<lparr>pendingHookRemovals := AList.delete (msg_id h) (pendingHookRemovals s3)\<rparr>))))"

subsection \<open>Messages from the render surface\<close>

datatype ipyWidgetMessage =
    Recv_logMessage string string
  | Recv_Ready
  | Recv_msg rawdata
  | Recv_binary_msg string
  | Recv_msg_received string
  | Recv_registerCommTarget string
  | Recv_RegisterMessageHook string
  | Recv_RemoveMessageHook string "string option"
  | Recv_MessageHookResult hookResponse
  | Recv_iopub_msg_handled string
  | Recv_other

text \<open>\<^verbatim>\<open>receiveMessage\<close>. The first component is the exception that escapes, if one does:
  \<^verbatim>\<open>deserializeDataViews(payload)![0]\<close> throws when the result is \<^verbatim>\<open>undefined\<close>.\<close>

definition receiveMessage ::
  "collab \<Rightarrow> ipyWidgetMessage \<Rightarrow> dispatcher \<Rightarrow> (string option \<times> dispatcher) option" where
  "receiveMessage c message s =
     (case message of
        Recv_logMessage category text \<Rightarrow>
          Some (None,
                if category = ''error'' then logger (LogError (''Widget Error: '' @ text)) s
                else logger (LogTrace (''Widget Message: '' @ text)) s)
      | Recv_Ready \<Rightarrow> map_option (Pair None) (initialize c (sendKernelOptions [] s))
      | Recv_msg payload \<Rightarrow> Some (None, sendRawPayloadToKernelSocket c payload s)
      | Recv_binary_msg payload \<Rightarrow>
          (case deserializeDataViews c payload of
             None \<Rightarrow> Some (Some ''TypeError'', s)
           | Some [] \<Rightarrow> Some (None, sendRawPayloadToKernelSocket c Undefined s)
           | Some (x # xs) \<Rightarrow> Some (None, sendRawPayloadToKernelSocket c x s))
      | Recv_msg_received i \<Rightarrow> Some (None, onKernelSocketResponse i s)
      | Recv_registerCommTarget targetName \<Rightarrow> map_option (Pair None) (registerCommTarget c targetName s)
      | Recv_RegisterMessageHook msgId \<Rightarrow> Some (None, registerMessageHook msgId s)
      | Recv_RemoveMessageHook hookMsgId lastHookedMsgId \<Rightarrow>
          Some (None, possiblyRemoveMessageHook hookMsgId lastHookedMsgId s)
      | Recv_MessageHookResult args \<Rightarrow> Some (None, handleMessageHookResponse args s)
      | Recv_iopub_msg_handled i \<Rightarrow> Some (None, iopubMessageHandled i s)
      | Recv_other \<Rightarrow> Some (None, s))"

subsection \<open>Construction and the events of a dispatcher's life\<close>

text \<open>The constructor: the default target is pending from the start and the subscription
  to kernel starts is held for disposal. No kernel, socket or promise exists yet.\<close>

definition newDispatcher :: dispatcher where
  "newDispatcher =
     \<lparr>commTargetsRegistered = [], pendingTargetNames = [''jupyter.widget''], kernel = None,
      messageHooks = {}, pendingHookRemovals = [], messageHookRequests = [],
      disposables = [OnDidStartKernel], kernelRestartHandlerAttached = False,
      kernelWasConnectedAtLeastOnce = False, disposed = False, pendingMessages = [],
      subscribedToKernelSocket = False, waitingMessageIds = [], outputWidgetIds = {},
      fullHandleMessage = None, isUsingIPyWidgets = False, kernelSocketHandlers = [],
      oldKernelId = None, kernelCommTargets = [], KernelSocketMap = [], providerKernel = None,
      deferreds = (\<lambda>p. Pending), nextDeferred = 0, uuidCount = 0, nextHook = 0, clock = 0,
      sendThrows = [], posted = [], displayMessages = [], logged = [], kernelSent = [],
      kernelCommTargetCalls = [], kernelHookCalls = [], socketOps = [], unsubscribed = []\<rparr>"

text \<open>
  Everything that can happen to a dispatcher: a message from the render surface, disposal,
  the events it subscribed to, a frame through one of its socket hooks, an iopub message
  through a message hook, the scheduler running a suspended method again, a third party
  adding or removing a comm target, and a change of its surroundings (the kernel object
  it holds, what the provider returns, the socket table, the outcomes of sends to come,
  the time).
\<close>

datatype event =
    ReceiveMessage ipyWidgetMessage
  | Dispose
  | DidStartKernel
  | DidKernelSocketChange ikernel
  | KernelRestarted
  | KernelDisposed
  | SocketReceive string rawdata
  | SocketSend string rawdata
  | IOPubHook msg
  | Resume task
  | ThirdPartyRegister kconn string
  | ThirdPartyRemove kconn string
  | Surroundings "ikernel option" "ikernel option" "(string \<times> ksocket) list" "bool list" nat

definition step :: "collab \<Rightarrow> event \<Rightarrow> dispatcher \<Rightarrow> dispatcher option" where
  "step c e s =
     (case e of
        ReceiveMessage m \<Rightarrow> map_option snd (receiveMessage c m s)
      | Dispose \<Rightarrow> Some (dispose s)
      | DidStartKernel \<Rightarrow> if OnDidStartKernel \<in> set (disposables s) then initialize c s else Some s
      | DidKernelSocketChange kern \<Rightarrow>
          if subscribedToKernelSocket s then onDidKernelSocketChange c kern s else Some s
      | KernelRestarted \<Rightarrow> if OnRestarted \<in> set (disposables s) then handleKernelRestarts c s else Some s
      | KernelDisposed \<Rightarrow> Some (s\<lparr>kernel := None\<rparr>)
      | SocketReceive proto d \<Rightarrow> Some (snd (onKernelSocketMessage c proto d s))
      | SocketSend proto d \<Rightarrow> Some (snd (mirrorSend c proto d s))
      | IOPubHook m \<Rightarrow> Some (snd (messageHookCallback c m s))
      | Resume t \<Rightarrow> Some (snd (resume t s))
      | ThirdPartyRegister k targetName \<Rightarrow> Some (registerCommTargetFor3rdPartyExtensions k targetName s)
      | ThirdPartyRemove k targetName \<Rightarrow> Some (removeCommTargetFor3rdPartyExtensions k targetName s)
      | Surroundings k pk sm st t \<Rightarrow>
          Some (s\<lparr>kernel := k, providerKernel := pk, KernelSocketMap := sm, sendThrows := st, clock := t\<rparr>))"

fun run :: "collab \<Rightarrow> event list \<Rightarrow> dispatcher \<Rightarrow> dispatcher option" where
  "run c [] s = Some s"
| "run c (e # es) s = (case step c e s of None \<Rightarrow> None | Some s1 \<Rightarrow> run c es s1)"

subsection \<open>What the kernel is handed for a queued payload\<close>




definition sendFailure :: logEntry where
  "sendFailure = LogError ''Failed to send message to Kernel''"

subsection \<open>Sample collaborators, messages and states\<close>

definition execMsg :: msg where
  "execMsg = \<lparr>channel = ''shell'',
              header = Some \<lparr>msg_type = ''execute_request'', msg_id = ''m1''\<rparr>,
              parent_msg_id = [], content = None, buffers = []\<rparr>"

definition openMsg :: msg where
  "openMsg = \<lparr>channel = ''iopub'',
              header = Some \<lparr>msg_type = ''comm_open'', msg_id = ''m2''\<rparr>,
              parent_msg_id = [],
              content = Some \<lparr>data = Some \<lparr>widget_view = False, data_method = None,
                                state = Some \<lparr>model_module = Some ''@jupyter-widgets/output'',
                                               model_name = Some ''OutputModel''\<rparr>\<rparr>,
                              comm_id = Some ''X'', target_name = Some ''jupyter.widget''\<rparr>,
              buffers = []\<rparr>"

definition updateMsg :: "string \<Rightarrow> msg" where
  "updateMsg i = \<lparr>channel = ''iopub'',
                  header = Some \<lparr>msg_type = ''comm_msg'', msg_id = i\<rparr>,
                  parent_msg_id = [],
                  content = Some \<lparr>data = Some \<lparr>widget_view = False, data_method = Some ''update'', state = None\<rparr>,
                                  comm_id = Some ''X'', target_name = None\<rparr>,
                  buffers = []\<rparr>"

definition closeMsg :: msg where
  "closeMsg = \<lparr>channel = ''iopub'',
               header = Some \<lparr>msg_type = ''comm_close'', msg_id = ''m5''\<rparr>,
               parent_msg_id = [],
               content = Some \<lparr>data = None, comm_id = Some ''X'', target_name = None\<rparr>,
               buffers = []\<rparr>"

definition sampleParse :: "string \<Rightarrow> msg option" where
  "sampleParse t =
     (if t = ''shell execute_request'' then Some execMsg
      else if t = ''comm_open X'' then Some openMsg
      else if t = ''comm_msg update X m3'' then Some (updateMsg ''m3'')
      else if t = ''comm_msg update X m4'' then Some (updateMsg ''m4'')
      else if t = ''comm_close X'' then Some closeMsg
      else None)"

definition sampleDeserialize :: "rawdata \<Rightarrow> string \<Rightarrow> msg option" where
  "sampleDeserialize d proto =
     (case d of Text t \<Rightarrow> sampleParse t | Binary b \<Rightarrow> (if b = [1] then Some execMsg else None) | Undefined \<Rightarrow> None)"

definition sampleCollab :: collab where
  "sampleCollab =
     \<lparr>JSON_parse = sampleParse, deserialize = sampleDeserialize,
      shouldMirrorText = (\<lambda>t. True), shouldMirrorMsg = (\<lambda>m. True),
      serializeDataViews = (\<lambda>d. ''views''), deserializeDataViews = (\<lambda>t. None),
      generateUuid = (\<lambda>n. if n = 0 then ''u'' else if n = 1 then ''uu'' else if n = 2 then ''uuu'' else ''uuuu''),
      WIDGET_MIMETYPE = ''application/vnd.jupyter.widget-view+json'',
      DefaultCommTarget = ''jupyter.widget''\<rparr>"

definition liveKernel :: ikernel where
  "liveKernel =
     \<lparr>session = Some \<lparr>skernel = Some \<lparr>connRef = 0, kid = ''k1'', clientId = ''c1'',
                                        username = ''u1'', kmodel = None\<rparr>\<rparr>\<rparr>"

text \<open>A fresh dispatcher whose document has a kernel with a session and a socket.\<close>

definition liveDispatcher :: dispatcher where
  "liveDispatcher =
     newDispatcher\<lparr>kernel := Some liveKernel, providerKernel := Some liveKernel,
                   KernelSocketMap := [(''k1'', \<lparr>sockRef = 0, protocol = ''v1''\<rparr>)]\<rparr>"

text \<open>The sample dispatcher after the kernel start was announced, and after the
  \<^verbatim>\<open>comm_open\<close> of an Output widget with comm id \<open>X\<close> came in on the socket.\<close>

definition connected :: dispatcher where
  "connected = the (initialize sampleCollab liveDispatcher)"

definition tracking :: dispatcher where
  "tracking = snd (onKernelSocketMessage sampleCollab ''v1'' (Text ''comm_open X'') connected)"

text \<open>From there: an update of that widget with message id \<open>m3\<close> comes in; a second one
  with id \<open>m4\<close> comes in before the first was reported handled; or the widget is closed
  instead.\<close>

definition gated :: dispatcher where
  "gated = snd (onKernelSocketMessage sampleCollab ''v1'' (Text ''comm_msg update X m3'') tracking)"

definition overwritten :: dispatcher where
  "overwritten = snd (onKernelSocketMessage sampleCollab ''v1'' (Text ''comm_msg update X m4'') gated)"


text \<open>Or an execute request goes out through the send hook.\<close>

definition mirroring :: dispatcher where
  "mirroring = snd (mirrorSend sampleCollab ''v1'' (Text ''shell execute_request'') tracking)"

text \<open>Then the render surface queues a payload that cannot be decoded and registers a
  message hook for \<open>m1\<close>, an iopub message with that parent passes the hook, and at last
  the kernel socket changes.\<close>

definition busy :: dispatcher where
  "busy = snd (messageHookCallback sampleCollab ((updateMsg ''m3'')\<lparr>parent_msg_id := ''m1''\<rparr>)
                 (registerMessageHook ''m1''
                    (sendRawPayloadToKernelSocket sampleCollab (Text ''D'') mirroring)))"

definition restarted :: dispatcher where
  "restarted = the (onDidKernelSocketChange sampleCollab liveKernel busy)"

subsection \<open>Frames as the hooks see them\<close>

text \<open>The receive hook deserialises the frame \<open>d\<close> to the message \<open>m\<close> and the mirroring
  predicate accepts it, so that \<open>m\<close> is classified.\<close>

definition arrives :: "collab \<Rightarrow> string \<Rightarrow> rawdata \<Rightarrow> msg \<Rightarrow> bool" where
  "arrives c proto d m = (mustDeserialize c d \<and> deserialize c d proto = Some m \<and> shouldMirrorMsg c m)"

definition isText :: "rawdata \<Rightarrow> bool" where
  "isText d = (case d of Text t \<Rightarrow> True | _ \<Rightarrow> False)"

text \<open>An iopub \<^verbatim>\<open>comm_msg\<close> with method \<^verbatim>\<open>update\<close> for the comm \<open>x\<close>.\<close>

definition isOutputUpdate :: "msg \<Rightarrow> string \<Rightarrow> bool" where
  "isOutputUpdate m x =
     (channel m = ''iopub'' \<and> header_msg_type m = Some ''comm_msg'' \<and>
      content_data_method m = Some ''update'' \<and> content_comm_id m = Some x)"

text \<open>The send hook reads the frame \<open>d\<close> as the shell \<^verbatim>\<open>execute_request\<close> \<open>m\<close> with header
  \<open>h\<close>, and the mirroring predicate accepts it.\<close>

definition outboundExecute :: "collab \<Rightarrow> string \<Rightarrow> rawdata \<Rightarrow> msg \<Rightarrow> header \<Rightarrow> bool" where
  "outboundExecute c proto d m h =
     ((case d of
         Text t \<Rightarrow> str_includes t ''shell'' \<and> str_includes t ''execute_request'' \<and> JSON_parse c t = Some m
       | _ \<Rightarrow> deserialize c d proto = Some m) \<and>
      channel m = ''shell'' \<and> header m = Some h \<and> msg_type h = ''execute_request'' \<and>
      shouldMirrorMsg c m)"

section \<open>Properties\<close>

lemmas sample_defs = sampleCollab_def sampleParse_def sampleDeserialize_def liveDispatcher_def
  liveKernel_def newDispatcher_def execMsg_def openMsg_def updateMsg_def closeMsg_def

subsection \<open>The outbound queue is flushed first in, first out\<close>

lemma pendingMessages_kernelSend [simp]:
  "pendingMessages (snd (kernelSend ch m s)) = pendingMessages s"
  by (simp add: kernelSend_def split: list.splits)


lemma sendPendingLoop_Nil:
  "pendingMessages s = [] \<Longrightarrow> sendPendingLoop c proto s = s"
  by (subst sendPendingLoop.simps) simp

lemma sendPendingLoop_undecodable:
  "pendingMessages s = message # rest \<Longrightarrow> decodePending c proto message = None \<Longrightarrow>
   sendPendingLoop c proto s = logger sendFailure s"
  by (subst sendPendingLoop.simps) (simp add: sendFailure_def)

lemma sendPendingLoop_thrown:
  "pendingMessages s = message # rest \<Longrightarrow> decodePending c proto message = Some m \<Longrightarrow>
   \<not> fst (kernelSend (sendChannel m) (outgoing m) s) \<Longrightarrow>
   sendPendingLoop c proto s = logger sendFailure (snd (kernelSend (sendChannel m) (outgoing m) s))"
  by (subst sendPendingLoop.simps) (simp add: sendFailure_def)

lemma sendPendingLoop_sent:
  "pendingMessages s = message # rest \<Longrightarrow> decodePending c proto message = Some m \<Longrightarrow>
   fst (kernelSend (sendChannel m) (outgoing m) s) \<Longrightarrow>
   sendPendingLoop c proto s =
     sendPendingLoop c proto ((snd (kernelSend (sendChannel m) (outgoing m) s))\<lparr>pendingMessages := rest\<rparr>)"
  by (subst sendPendingLoop.simps) simp


























subsection \<open>Evaluating the sample scenario\<close>

lemma registerCommTargets_Nil:
  "pendingTargetNames s = [] \<Longrightarrow> registerCommTargets c k s = Some s"
  by (subst registerCommTargets.simps) simp

lemma registerCommTargets_registered:
  "pendingTargetNames s = t # rest \<Longrightarrow> t \<noteq> [] \<Longrightarrow> t \<in> set (commTargetsRegistered s) \<Longrightarrow>
   registerCommTargets c k s = Some s"
  by (subst registerCommTargets.simps) simp

lemma registerCommTargets_fresh:
  "pendingTargetNames s = t # rest \<Longrightarrow> t \<noteq> [] \<Longrightarrow> t \<notin> set (commTargetsRegistered s) \<Longrightarrow>
   registerCommTargets c k s = registerCommTargets c k (registerOneTarget c k t s)"
  by (subst registerCommTargets.simps) simp

lemmas eval_defs = initialize_def getKernel_def subscribeToKernelSocket_def subscribeToKernelSocketImpl_def
  removeOldHandlers_def discardOnRestart_def attachToSocket_def sendKernelOptions_def
  sendPendingMessages_def sessionKernel_def socketProtocol_def raisePostMessage_def
  registerOneTarget_def logger_def setAdd_def setDelete_def sendRestartKernel_def resolve_def
  registerCommTargets_Nil registerCommTargets_registered registerCommTargets_fresh
  sendPendingLoop_Nil



lemma initialize_sample:
  "initialize sampleCollab liveDispatcher =
     Some (liveDispatcher\<lparr>commTargetsRegistered := [''jupyter.widget''], pendingTargetNames := [],
        disposables := [OnDidStartKernel, OnRestarted], kernelRestartHandlerAttached := True,
        kernelWasConnectedAtLeastOnce := True, subscribedToKernelSocket := True,
        kernelSocketHandlers := [(0, 0, 1)], oldKernelId := Some ''k1'', kernelCommTargets := [(0, [])],
        nextHook := 2, posted := [IPyWidgets_kernelOptions ''k1'' ''c1'' ''u1'' ([], []) ''v1''],
        logged := [LogTrace ''Registering commtarget jupyter.widget''],
        socketOps := [AddReceiveHook 0 0, AddSendHook 0 1]\<rparr>)"
  by (simp add: eval_defs sample_defs)

lemmas inbound_defs = onKernelSocketMessage_def forwardFrame_def mustDeserialize_def classify_def
  createDeferred_def raisePostMessage_def logger_def header_msg_type_def content_comm_id_def
  content_data_def content_data_method_def content_data_state_def messageNeedsFullHandle_def
  isIPYWidgetOutputModelOpen_def isIPYWidgetOutputModelClose_def Let_def

lemma connected_eval:
  "connected = liveDispatcher\<lparr>commTargetsRegistered := [''jupyter.widget''], pendingTargetNames := [],
        disposables := [OnDidStartKernel, OnRestarted], kernelRestartHandlerAttached := True,
        kernelWasConnectedAtLeastOnce := True, subscribedToKernelSocket := True,
        kernelSocketHandlers := [(0, 0, 1)], oldKernelId := Some ''k1'', kernelCommTargets := [(0, [])],
        nextHook := 2, posted := [IPyWidgets_kernelOptions ''k1'' ''c1'' ''u1'' ([], []) ''v1''],
        logged := [LogTrace ''Registering commtarget jupyter.widget''],
        socketOps := [AddReceiveHook 0 0, AddSendHook 0 1]\<rparr>"
  by (simp add: connected_def initialize_sample)

lemma tracking_eval:
  "tracking = connected\<lparr>waitingMessageIds := [(''u'', \<lparr>resultPromise = 0, startTime = 0\<rparr>)],
       outputWidgetIds := {Some ''X''}, isUsingIPyWidgets := True, 
       deferreds := (\<lambda>p. Pending), nextDeferred := 1, uuidCount := 1,
       posted := [IPyWidgets_kernelOptions ''k1'' ''c1'' ''u1'' ([], []) ''v1'', IPyWidgets_msg ''u'' ''comm_open X'']\<rparr>"
  by (simp add: tracking_def connected_eval inbound_defs sample_defs fun_upd_idem)

subsection \<open>Inbound frames and the full-handle gate\<close>

lemma forwardFrame_fields:
  "outputWidgetIds (snd (forwardFrame c proto d u s)) = outputWidgetIds s"
  "fullHandleMessage (snd (forwardFrame c proto d u s)) = fullHandleMessage s"
  "isUsingIPyWidgets (snd (forwardFrame c proto d u s)) = isUsingIPyWidgets s"
  "nextDeferred (snd (forwardFrame c proto d u s)) = nextDeferred s"
  "deferreds (snd (forwardFrame c proto d u s)) = deferreds s"
  "waitingMessageIds (snd (forwardFrame c proto d u s)) = waitingMessageIds s"
  "uuidCount (snd (forwardFrame c proto d u s)) = uuidCount s"
  by (auto simp: forwardFrame_def raisePostMessage_def logger_def Let_def split: rawdata.splits option.splits)

lemma forwardFrame_message:
  "deserialize c d proto = Some m \<Longrightarrow> header m \<noteq> None \<Longrightarrow>
   fst (forwardFrame c proto d u s) = Inr None \<or> fst (forwardFrame c proto d u s) = Inr (Some m)"
  by (auto simp: forwardFrame_def isDisplayDataMsg_def Let_def split: rawdata.splits)

lemma onKernelSocketMessage_arrives:
  assumes "arrives c proto d m" and hd: "header m \<noteq> None"
  shows "\<exists>s2. onKernelSocketMessage c proto d s = classify c (nextDeferred s) m s2 \<and>
           outputWidgetIds s2 = outputWidgetIds s \<and> fullHandleMessage s2 = fullHandleMessage s \<and>
           isUsingIPyWidgets s2 = isUsingIPyWidgets s \<and> nextDeferred s2 = Suc (nextDeferred s) \<and>
           deferreds s2 = (deferreds s)(nextDeferred s := Pending) \<and>
           waitingMessageIds s2 =
             AList.update (generateUuid c (uuidCount s))
               \<lparr>resultPromise = nextDeferred s, startTime = clock s\<rparr> (waitingMessageIds s)"
proof -
  let ?u = "generateUuid c (uuidCount s)"
  let ?s1 = "(snd (createDeferred (s\<lparr>uuidCount := Suc (uuidCount s)\<rparr>)))
                 \<lparr>waitingMessageIds :=
                    AList.update ?u \<lparr>resultPromise = fst (createDeferred (s\<lparr>uuidCount := Suc (uuidCount s)\<rparr>)),
                       startTime = clock (s\<lparr>uuidCount := Suc (uuidCount s)\<rparr>)\<rparr>
                      (waitingMessageIds (s\<lparr>uuidCount := Suc (uuidCount s)\<rparr>))\<rparr>"
  let ?s2 = "snd (forwardFrame c proto d ?u ?s1)"
  from assms have d: "mustDeserialize c d" "deserialize c d proto = Some m" "shouldMirrorMsg c m"
    by (simp_all add: arrives_def)
  have "onKernelSocketMessage c proto d s = classify c (nextDeferred s) m ?s2"
    using d forwardFrame_message[OF d(2) hd, of ?u ?s1]
    by (auto simp: onKernelSocketMessage_def Let_def createDeferred_def)
  moreover have "outputWidgetIds ?s2 = outputWidgetIds s" "fullHandleMessage ?s2 = fullHandleMessage s"
    "isUsingIPyWidgets ?s2 = isUsingIPyWidgets s" "nextDeferred ?s2 = Suc (nextDeferred s)"
    "deferreds ?s2 = (deferreds s)(nextDeferred s := Pending)"
    "waitingMessageIds ?s2 =
             AList.update ?u \<lparr>resultPromise = nextDeferred s, startTime = clock s\<rparr> (waitingMessageIds s)"
    by (simp_all add: forwardFrame_fields createDeferred_def)
  ultimately show ?thesis by blast
qed


lemmas chain_defs = header_msg_type_def content_comm_id_def content_data_def content_data_method_def
  content_data_state_def



lemma classify_update_tracked:
  "isOutputUpdate m x \<Longrightarrow> header m = Some h \<Longrightarrow> Some x \<in> outputWidgetIds s \<Longrightarrow>
   fst (classify c ack m s) = AwaitSocketAck ack \<and>
   fullHandleMessage (snd (classify c ack m s)) = Some \<lparr>fid = msg_id h, promise = nextDeferred s\<rparr> \<and>
   deferreds (snd (classify c ack m s)) = (deferreds s)(nextDeferred s := Pending) \<and>
   waitingMessageIds (snd (classify c ack m s)) = waitingMessageIds s \<and>
   outputWidgetIds (snd (classify c ack m s)) = outputWidgetIds s"
  by (auto simp: classify_def Let_def isIPYWidgetOutputModelOpen_def isIPYWidgetOutputModelClose_def
      isOutputUpdate_def messageNeedsFullHandle_def createDeferred_def chain_defs split: option.splits)


lemma update_tracked:
  assumes a: "arrives c proto d m" and u: "isOutputUpdate m x" and h: "header m = Some h"
    and x: "Some x \<in> outputWidgetIds s"
  shows "fst (onKernelSocketMessage c proto d s) = AwaitSocketAck (nextDeferred s)"
    and "fullHandleMessage (snd (onKernelSocketMessage c proto d s)) =
           Some \<lparr>fid = msg_id h, promise = Suc (nextDeferred s)\<rparr>"
    and "deferreds (snd (onKernelSocketMessage c proto d s)) =
           (deferreds s)(nextDeferred s := Pending, Suc (nextDeferred s) := Pending)"
    and "map_of (waitingMessageIds (snd (onKernelSocketMessage c proto d s))) (generateUuid c (uuidCount s)) =
           Some \<lparr>resultPromise = nextDeferred s, startTime = clock s\<rparr>"
proof -
  from h have "header m \<noteq> None" by simp
  from onKernelSocketMessage_arrives[OF a this, of s] obtain s2 where
    s2: "onKernelSocketMessage c proto d s = classify c (nextDeferred s) m s2"
      "outputWidgetIds s2 = outputWidgetIds s" "nextDeferred s2 = Suc (nextDeferred s)"
      "deferreds s2 = (deferreds s)(nextDeferred s := Pending)"
      "waitingMessageIds s2 =
             AList.update (generateUuid c (uuidCount s))
               \<lparr>resultPromise = nextDeferred s, startTime = clock s\<rparr> (waitingMessageIds s)"
    by blast
  from x s2(2) have x2: "Some x \<in> outputWidgetIds s2" by simp
  note cl = classify_update_tracked[OF u h x2, of c "nextDeferred s"]
  show "fst (onKernelSocketMessage c proto d s) = AwaitSocketAck (nextDeferred s)"
    using cl s2 by simp
  show "fullHandleMessage (snd (onKernelSocketMessage c proto d s)) =
           Some \<lparr>fid = msg_id h, promise = Suc (nextDeferred s)\<rparr>"
    using cl s2 by simp
  show "deferreds (snd (onKernelSocketMessage c proto d s)) =
           (deferreds s)(nextDeferred s := Pending, Suc (nextDeferred s) := Pending)"
    using cl s2 by simp
  show "map_of (waitingMessageIds (snd (onKernelSocketMessage c proto d s))) (generateUuid c (uuidCount s)) =
           Some \<lparr>resultPromise = nextDeferred s, startTime = clock s\<rparr>"
    using cl s2 by (simp add: update_conv')
qed

lemma gated_eval:
  "gated = tracking\<lparr>waitingMessageIds := [(''u'', \<lparr>resultPromise = 0, startTime = 0\<rparr>),
                                              (''uu'', \<lparr>resultPromise = 1, startTime = 0\<rparr>)],
       fullHandleMessage := Some \<lparr>fid = ''m3'', promise = 2\<rparr>, nextDeferred := 3, uuidCount := 2,
       posted := [IPyWidgets_kernelOptions ''k1'' ''c1'' ''u1'' ([], []) ''v1'',
                  IPyWidgets_msg ''u'' ''comm_open X'', IPyWidgets_msg ''uu'' ''comm_msg update X m3'']\<rparr>"
  by (simp add: gated_def tracking_eval connected_eval inbound_defs sample_defs fun_upd_idem)

lemma overwritten_eval:
  "overwritten = gated\<lparr>waitingMessageIds := [(''u'', \<lparr>resultPromise = 0, startTime = 0\<rparr>),
                                              (''uu'', \<lparr>resultPromise = 1, startTime = 0\<rparr>),
                                              (''uuu'', \<lparr>resultPromise = 3, startTime = 0\<rparr>)],
       fullHandleMessage := Some \<lparr>fid = ''m4'', promise = 4\<rparr>, nextDeferred := 5, uuidCount := 3,
       posted := [IPyWidgets_kernelOptions ''k1'' ''c1'' ''u1'' ([], []) ''v1'',
                  IPyWidgets_msg ''u'' ''comm_open X'', IPyWidgets_msg ''uu'' ''comm_msg update X m3'',
                  IPyWidgets_msg ''uuu'' ''comm_msg update X m4'']\<rparr>"
  by (simp add: overwritten_def gated_eval tracking_eval connected_eval inbound_defs sample_defs fun_upd_idem)







text \<open>
  Claim C5, as stated, fails: the second update of the sample scenario arrives while the
  gate of the first is open, opens its own gate at once, and the report for the first
  message is ignored from then on, its promise pending for good.
\<close>

theorem second_gate_overwrites_first_counterexample:
  "fullHandleMessage gated = Some \<lparr>fid = ''m3'', promise = 2\<rparr> \<and> deferreds gated 2 = Pending \<and>
   fst (onKernelSocketMessage sampleCollab ''v1'' (Text ''comm_msg update X m4'') gated) = AwaitSocketAck 3 \<and>
   fullHandleMessage overwritten = Some \<lparr>fid = ''m4'', promise = 4\<rparr> \<and>
   deferreds overwritten 2 = Pending \<and>
   iopubMessageHandled ''m3'' overwritten = overwritten"
proof -
  have a: "arrives sampleCollab ''v1'' (Text ''comm_msg update X m4'') (updateMsg ''m4'')"
    by (simp add: arrives_def mustDeserialize_def sample_defs)
  have m: "isOutputUpdate (updateMsg ''m4'') ''X''"
    "header (updateMsg ''m4'') = Some \<lparr>msg_type = ''comm_msg'', msg_id = ''m4''\<rparr>"
    by (simp_all add: isOutputUpdate_def chain_defs sample_defs)
  have g: "Some ''X'' \<in> outputWidgetIds gated" "nextDeferred gated = 3"
    "fullHandleMessage gated = Some \<lparr>fid = ''m3'', promise = 2\<rparr>" "deferreds gated 2 = Pending"
    by (simp_all add: gated_eval tracking_eval connected_eval sample_defs)
  have o: "fullHandleMessage overwritten = Some \<lparr>fid = ''m4'', promise = 4\<rparr>"
    "deferreds overwritten 2 = Pending"
    by (simp_all add: overwritten_eval gated_eval tracking_eval connected_eval sample_defs)
  from update_tracked(1)[OF a m g(1)] g o show ?thesis
    by (simp add: iopubMessageHandled_def)
qed

text \<open>
  Claim C5, amended. \<open>fullHandleMessage\<close> is a single optional slot, so at most one gate is
  stored. A message that needs full handling overwrites the slot with its own gate as
  soon as it is classified, whatever the slot held, and does not wait for an earlier gate;
  a handled report for the id of the gate that was overwritten is ignored afterwards.
\<close>

theorem full_handle_gate_single_slot:
  "arrives c proto d m \<and> isOutputUpdate m x \<and> header m = Some h \<and> Some x \<in> outputWidgetIds s \<longrightarrow>
     fst (onKernelSocketMessage c proto d s) = AwaitSocketAck (nextDeferred s) \<and>
     fullHandleMessage (snd (onKernelSocketMessage c proto d s)) =
       Some \<lparr>fid = msg_id h, promise = Suc (nextDeferred s)\<rparr> \<and>
     (fullHandleMessage s = Some g \<and> fid g \<noteq> msg_id h \<longrightarrow>
        iopubMessageHandled (fid g) (snd (onKernelSocketMessage c proto d s)) =
          snd (onKernelSocketMessage c proto d s))"
proof (intro impI)
  assume a: "arrives c proto d m \<and> isOutputUpdate m x \<and> header m = Some h \<and> Some x \<in> outputWidgetIds s"
  then have a': "arrives c proto d m" "isOutputUpdate m x" "header m = Some h" "Some x \<in> outputWidgetIds s"
    by simp_all
  note u = update_tracked[OF a']
  show "fst (onKernelSocketMessage c proto d s) = AwaitSocketAck (nextDeferred s) \<and>
     fullHandleMessage (snd (onKernelSocketMessage c proto d s)) =
       Some \<lparr>fid = msg_id h, promise = Suc (nextDeferred s)\<rparr> \<and>
     (fullHandleMessage s = Some g \<and> fid g \<noteq> msg_id h \<longrightarrow>
        iopubMessageHandled (fid g) (snd (onKernelSocketMessage c proto d s)) =
          snd (onKernelSocketMessage c proto d s))"
    using u(1,2) by (simp add: iopubMessageHandled_def)
qed

theorem full_handle_gate_single_slot_witness:
  "arrives sampleCollab ''v1'' (Text ''comm_msg update X m4'') (updateMsg ''m4'') \<and>
   isOutputUpdate (updateMsg ''m4'') ''X'' \<and>
   header (updateMsg ''m4'') = Some \<lparr>msg_type = ''comm_msg'', msg_id = ''m4''\<rparr> \<and>
   Some ''X'' \<in> outputWidgetIds gated \<and>
   fullHandleMessage gated = Some \<lparr>fid = ''m3'', promise = 2\<rparr> \<and>
   fid \<lparr>fid = ''m3'', promise = 2\<rparr> \<noteq> msg_id \<lparr>msg_type = ''comm_msg'', msg_id = ''m4''\<rparr> \<and>
   fst (onKernelSocketMessage sampleCollab ''v1'' (Text ''comm_msg update X m4'') gated) = AwaitSocketAck 3 \<and>
   fullHandleMessage overwritten = Some \<lparr>fid = ''m4'', promise = 4\<rparr> \<and>
   iopubMessageHandled ''m3'' overwritten = overwritten"
proof -
  have a: "arrives sampleCollab ''v1'' (Text ''comm_msg update X m4'') (updateMsg ''m4'')"
    by (simp add: arrives_def mustDeserialize_def sample_defs)
  have m: "isOutputUpdate (updateMsg ''m4'') ''X''"
    "header (updateMsg ''m4'') = Some \<lparr>msg_type = ''comm_msg'', msg_id = ''m4''\<rparr>"
    by (simp_all add: isOutputUpdate_def chain_defs sample_defs)
  have g: "Some ''X'' \<in> outputWidgetIds gated" "nextDeferred gated = 3"
    "fullHandleMessage gated = Some \<lparr>fid = ''m3'', promise = 2\<rparr>"
    by (simp_all add: gated_eval tracking_eval connected_eval sample_defs)
  show ?thesis
    using full_handle_gate_single_slot
      [of sampleCollab "''v1''" "Text ''comm_msg update X m4''" "updateMsg ''m4''" "''X''"
          "\<lparr>msg_type = ''comm_msg'', msg_id = ''m4''\<rparr>" gated "\<lparr>fid = ''m3'', promise = 2\<rparr>"]
      a m g
    unfolding overwritten_def[symmetric]
    by (simp add: eval_nat_numeral)
qed

subsection \<open>Mirrored execute requests and forced resolution\<close>

lemma mirrorParsed_execute:
  "channel m = ''shell'' \<Longrightarrow> header m = Some h \<Longrightarrow> msg_type h = ''execute_request'' \<Longrightarrow>
   shouldMirrorMsg c m \<Longrightarrow>
   mirrorParsed c m s =
     ((if isUsingIPyWidgets s then AwaitMirror (nextDeferred s) else Completed),
      s\<lparr>deferreds := (deferreds s)(nextDeferred s := Pending), nextDeferred := Suc (nextDeferred s),
        waitingMessageIds :=
          AList.update (msg_id h) \<lparr>resultPromise = nextDeferred s, startTime = clock s\<rparr> (waitingMessageIds s),
        posted := posted s @ [IPyWidgets_mirror_execute (msg_id h) m]\<rparr>)"
  by (simp add: mirrorParsed_def mirrorExecuteRequest_def createDeferred_def raisePostMessage_def Let_def)

lemma mirrorSend_execute:
  assumes "outboundExecute c proto d m h"
  shows "mirrorSend c proto d s =
     ((if isUsingIPyWidgets s then AwaitMirror (nextDeferred s) else Completed),
      s\<lparr>deferreds := (deferreds s)(nextDeferred s := Pending), nextDeferred := Suc (nextDeferred s),
        waitingMessageIds :=
          AList.update (msg_id h) \<lparr>resultPromise = nextDeferred s, startTime = clock s\<rparr> (waitingMessageIds s),
        posted := posted s @ [IPyWidgets_mirror_execute (msg_id h) m]\<rparr>)"
proof -
  from assms have m: "channel m = ''shell''" "header m = Some h" "msg_type h = ''execute_request''"
    "shouldMirrorMsg c m"
    by (simp_all add: outboundExecute_def)
  note p = mirrorParsed_execute[OF m, of s]
  show ?thesis
  proof (cases d)
    case (Text t)
    with assms p show ?thesis by (simp add: mirrorSend_def outboundExecute_def)
  next
    case (Binary b)
    with assms p show ?thesis by (simp add: mirrorSend_def outboundExecute_def)
  next
    case Undefined
    with assms p show ?thesis by (simp add: mirrorSend_def outboundExecute_def)
  qed
qed

lemma fold_resolve_waiting_frame:
  "\<exists>f. fold (\<lambda>(i, d). resolve (resultPromise d) Resolved) ws s = s\<lparr>deferreds := f\<rparr>"
proof (induction ws arbitrary: s)
  case Nil
  show ?case by (rule exI[of _ "deferreds s"]) simp
next
  case (Cons w ws)
  obtain i d where w: "w = (i, d)" by (cases w)
  from Cons[of "resolve (resultPromise d) Resolved s"] w show ?case
    by (auto simp: resolve_def)
qed

lemma fold_resolve_requests_frame:
  "\<exists>f. fold (\<lambda>(i, m). resolve m (ResolvedWith False)) rs s = s\<lparr>deferreds := f\<rparr>"
proof (induction rs arbitrary: s)
  case Nil
  show ?case by (rule exI[of _ "deferreds s"]) simp
next
  case (Cons r rs)
  obtain i m where r: "r = (i, m)" by (cases r)
  from Cons[of "resolve m (ResolvedWith False) s"] r show ?case
    by (auto simp: resolve_def)
qed

lemma deferreds_resolve:
  "deferreds (resolve p v s) q = (if q = p \<and> deferreds s p = Pending then v else deferreds s q)"
  by (simp add: resolve_def)

lemma fold_resolve_waiting_settled:
  "deferreds s p \<noteq> Pending \<Longrightarrow>
   deferreds (fold (\<lambda>(i, d). resolve (resultPromise d) Resolved) ws s) p = deferreds s p"
  by (induction ws arbitrary: s) (auto simp: resolve_def)

lemma fold_resolve_requests_settled:
  "deferreds s p \<noteq> Pending \<Longrightarrow>
   deferreds (fold (\<lambda>(i, m). resolve m (ResolvedWith False)) rs s) p = deferreds s p"
  by (induction rs arbitrary: s) (auto simp: resolve_def)

lemma fold_resolve_waiting_member:
  "(i, w) \<in> set ws \<Longrightarrow>
   deferreds (fold (\<lambda>(i, d). resolve (resultPromise d) Resolved) ws s) (resultPromise w) =
     (if deferreds s (resultPromise w) = Pending then Resolved else deferreds s (resultPromise w))"
proof (induction ws arbitrary: s)
  case Nil
  then show ?case by simp
next
  case (Cons v ws)
  obtain j d where v: "v = (j, d)" by (cases v)
  let ?s1 = "resolve (resultPromise d) Resolved s"
  show ?case
  proof (cases "deferreds ?s1 (resultPromise w) = Pending")
    case True
    then have ne: "resultPromise d \<noteq> resultPromise w" and p: "deferreds s (resultPromise w) = Pending"
      by (auto simp: deferreds_resolve split: if_splits)
    with Cons.prems v have "(i, w) \<in> set ws" by auto
    from Cons.IH[OF this, of ?s1] True p v show ?thesis by simp
  next
    case False
    from fold_resolve_waiting_settled[OF False, of ws] v False
    show ?thesis by (auto simp: deferreds_resolve split: if_splits)
  qed
qed

lemma fold_resolve_requests_member:
  "(i, p) \<in> set rs \<Longrightarrow>
   deferreds (fold (\<lambda>(i, m). resolve m (ResolvedWith False)) rs s) p =
     (if deferreds s p = Pending then ResolvedWith False else deferreds s p)"
proof (induction rs arbitrary: s)
  case Nil
  then show ?case by simp
next
  case (Cons v rs)
  obtain j m where v: "v = (j, m)" by (cases v)
  let ?s1 = "resolve m (ResolvedWith False) s"
  show ?case
  proof (cases "deferreds ?s1 p = Pending")
    case True
    then have ne: "m \<noteq> p" and p: "deferreds s p = Pending"
      by (auto simp: deferreds_resolve split: if_splits)
    with Cons.prems v have "(i, p) \<in> set rs" by auto
    from Cons.IH[OF this, of ?s1] True p v show ?thesis by simp
  next
    case False
    from fold_resolve_requests_settled[OF False, of rs] v False
    show ?thesis by (auto simp: deferreds_resolve split: if_splits)
  qed
qed

lemma mirroring_eval:
  "mirroring = tracking\<lparr>waitingMessageIds := [(''u'', \<lparr>resultPromise = 0, startTime = 0\<rparr>),
                                                  (''m1'', \<lparr>resultPromise = 1, startTime = 0\<rparr>)],
       nextDeferred := 2,
       posted := [IPyWidgets_kernelOptions ''k1'' ''c1'' ''u1'' ([], []) ''v1'',
                  IPyWidgets_msg ''u'' ''comm_open X'', IPyWidgets_mirror_execute ''m1'' execMsg]\<rparr>"
proof -
  have "outboundExecute sampleCollab ''v1'' (Text ''shell execute_request'') execMsg
          \<lparr>msg_type = ''execute_request'', msg_id = ''m1''\<rparr>"
    by (simp add: outboundExecute_def sample_defs)
  from mirrorSend_execute[OF this, of tracking] show ?thesis
    by (simp add: mirroring_def tracking_eval connected_eval sample_defs fun_upd_idem)
qed

lemma discardOnRestart_frame:
  "\<exists>f. discardOnRestart s =
     s\<lparr>pendingMessages := [], waitingMessageIds := [], messageHookRequests := [], messageHooks := {},
       deferreds := f, posted := posted s @ [IPyWidgets_onRestartKernel]\<rparr>"
proof -
  let ?s1 = "s\<lparr>pendingMessages := []\<rparr>"
  obtain f where f: "fold (\<lambda>(i, d). resolve (resultPromise d) Resolved) (waitingMessageIds ?s1) ?s1 =
      ?s1\<lparr>deferreds := f\<rparr>"
    using fold_resolve_waiting_frame by blast
  let ?s3 = "?s1\<lparr>deferreds := f, waitingMessageIds := []\<rparr>"
  obtain g where g: "fold (\<lambda>(i, m). resolve m (ResolvedWith False)) (messageHookRequests ?s3) ?s3 =
      ?s3\<lparr>deferreds := g\<rparr>"
    using fold_resolve_requests_frame by blast
  show ?thesis
    apply (rule exI[of _ g])
    using f g by (simp add: discardOnRestart_def Let_def sendRestartKernel_def raisePostMessage_def)
qed

lemma discardOnRestart_deferreds:
  "deferreds (discardOnRestart s) =
     deferreds (fold (\<lambda>(i, m). resolve m (ResolvedWith False)) (messageHookRequests s)
        ((fold (\<lambda>(i, d). resolve (resultPromise d) Resolved) (waitingMessageIds s)
            (s\<lparr>pendingMessages := []\<rparr>))\<lparr>waitingMessageIds := []\<rparr>))"
proof -
  obtain f where f: "fold (\<lambda>(i, d). resolve (resultPromise d) Resolved) (waitingMessageIds s)
      (s\<lparr>pendingMessages := []\<rparr>) = s\<lparr>pendingMessages := [], deferreds := f\<rparr>"
    using fold_resolve_waiting_frame[of "waitingMessageIds s" "s\<lparr>pendingMessages := []\<rparr>"] by auto
  show ?thesis
    by (simp add: discardOnRestart_def Let_def sendRestartKernel_def raisePostMessage_def f)
qed

lemma discardOnRestart_waiting:
  assumes "(i, w) \<in> set (waitingMessageIds s)"
  shows "deferreds (discardOnRestart s) (resultPromise w) =
           (if deferreds s (resultPromise w) = Pending then Resolved else deferreds s (resultPromise w))"
proof -
  let ?s2 = "fold (\<lambda>(i, d). resolve (resultPromise d) Resolved) (waitingMessageIds s) (s\<lparr>pendingMessages := []\<rparr>)"
  have w: "deferreds ?s2 (resultPromise w) =
      (if deferreds s (resultPromise w) = Pending then Resolved else deferreds s (resultPromise w))"
    using fold_resolve_waiting_member[OF assms, of "s\<lparr>pendingMessages := []\<rparr>"] by simp
  then have ne: "deferreds (?s2\<lparr>waitingMessageIds := []\<rparr>) (resultPromise w) \<noteq> Pending" by simp
  have "deferreds (discardOnRestart s) (resultPromise w) =
          deferreds (?s2\<lparr>waitingMessageIds := []\<rparr>) (resultPromise w)"
    unfolding discardOnRestart_deferreds by (rule fold_resolve_requests_settled[OF ne])
  with w show ?thesis by simp
qed

lemma discardOnRestart_requests:
  assumes "(i, p) \<in> set (messageHookRequests s)"
  shows "deferreds (discardOnRestart s) p \<noteq> Pending"
  unfolding discardOnRestart_deferreds
  using fold_resolve_requests_member[OF assms] by simp

subsection \<open>Kernel restart\<close>

lemma registerOneTarget_keeps:
  "pendingMessages (registerOneTarget c k t s) = pendingMessages s \<and>
   kernelSent (registerOneTarget c k t s) = kernelSent s \<and>
   waitingMessageIds (registerOneTarget c k t s) = waitingMessageIds s \<and>
   messageHookRequests (registerOneTarget c k t s) = messageHookRequests s \<and>
   messageHooks (registerOneTarget c k t s) = messageHooks s \<and>
   deferreds (registerOneTarget c k t s) = deferreds s \<and>
   posted (registerOneTarget c k t s) = posted s \<and>
   isUsingIPyWidgets (registerOneTarget c k t s) = isUsingIPyWidgets s \<and>
   kernel (registerOneTarget c k t s) = kernel s \<and>
   KernelSocketMap (registerOneTarget c k t s) = KernelSocketMap s \<and>
   sendThrows (registerOneTarget c k t s) = sendThrows s"
  by (cases "sessionKernel (Some k)") (auto simp: registerOneTarget_def logger_def Let_def)

lemma registerCommTargets_keeps:
  assumes r: "registerCommTargets c k s = Some s'"
  shows "pendingMessages s' = pendingMessages s \<and> kernelSent s' = kernelSent s \<and>
   waitingMessageIds s' = waitingMessageIds s \<and> messageHookRequests s' = messageHookRequests s \<and>
   messageHooks s' = messageHooks s \<and> deferreds s' = deferreds s \<and> posted s' = posted s \<and>
   isUsingIPyWidgets s' = isUsingIPyWidgets s \<and> kernel s' = kernel s \<and>
   KernelSocketMap s' = KernelSocketMap s \<and> sendThrows s' = sendThrows s"
proof -
  let ?P = "\<lambda>(s::dispatcher) s'. pendingMessages s' = pendingMessages s \<and> kernelSent s' = kernelSent s \<and>
   waitingMessageIds s' = waitingMessageIds s \<and> messageHookRequests s' = messageHookRequests s \<and>
   messageHooks s' = messageHooks s \<and> deferreds s' = deferreds s \<and> posted s' = posted s \<and>
   isUsingIPyWidgets s' = isUsingIPyWidgets s \<and> kernel s' = kernel s \<and>
   KernelSocketMap s' = KernelSocketMap s \<and> sendThrows s' = sendThrows s"
  have "?P s s'"
  proof (rule registerCommTargets.raw_induct[where P = "\<lambda>c k. ?P", OF _ r])
    fix rct c k s s'
    assume IH: "\<And>c k s s'. rct c k s = Some s' \<Longrightarrow> ?P s s'"
      and step: "(case pendingTargetNames s of
          [] \<Rightarrow> Some s
        | targetName # rest \<Rightarrow>
            if targetName = [] then rct c k s
            else if targetName \<in> set (commTargetsRegistered s) then Some s
            else rct c k (registerOneTarget c k targetName s)) = Some s'"
    show "?P s s'"
    proof (cases "pendingTargetNames s")
      case Nil
      with step show ?thesis by simp
    next
      case (Cons t rest)
      show ?thesis
      proof (cases "t = []")
        case True
        with Cons step have "rct c k s = Some s'" by simp
        from IH[OF this] show ?thesis .
      next
        case False
        show ?thesis
        proof (cases "t \<in> set (commTargetsRegistered s)")
          case True
          with Cons False step show ?thesis by simp
        next
          case nreg: False
          with Cons False step have "rct c k (registerOneTarget c k t s) = Some s'" by simp
          from IH[OF this] registerOneTarget_keeps[of c k t s] show ?thesis by simp
        qed
      qed
    qed
  qed
  then show ?thesis .
qed

lemma pendingTargetNames_registerOneTarget:
  "pendingTargetNames (registerOneTarget c k t s) = setDelete t (pendingTargetNames s)"
  by (cases "sessionKernel (Some k)") (auto simp: registerOneTarget_def logger_def Let_def)

lemma registerCommTargets_returns:
  "[] \<notin> set (pendingTargetNames s) \<Longrightarrow> \<exists>s'. registerCommTargets c k s = Some s'"
proof (induction "length (pendingTargetNames s)" arbitrary: s rule: less_induct)
  case less
  show ?case
  proof (cases "pendingTargetNames s")
    case Nil
    then show ?thesis by (simp add: registerCommTargets_Nil)
  next
    case (Cons t rest)
    with less.prems have t: "t \<noteq> []" by auto
    show ?thesis
    proof (cases "t \<in> set (commTargetsRegistered s)")
      case True
      with Cons t show ?thesis by (simp add: registerCommTargets_registered)
    next
      case False
      let ?s1 = "registerOneTarget c k t s"
      have p: "pendingTargetNames ?s1 = filter (\<lambda>y. y \<noteq> t) rest"
        using Cons by (simp add: pendingTargetNames_registerOneTarget setDelete_def)
      have "length (pendingTargetNames ?s1) < length (pendingTargetNames s)"
        unfolding p Cons by (simp add: le_imp_less_Suc)
      moreover have "[] \<notin> set (pendingTargetNames ?s1)"
        unfolding p using less.prems Cons by auto
      ultimately obtain s' where "registerCommTargets c k ?s1 = Some s'"
        using less.hyps by blast
      with Cons t False show ?thesis by (simp add: registerCommTargets_fresh)
    qed
  qed
qed

lemma removeOldHandlers_keeps:
  "\<exists>ops. removeOldHandlers oldId s = s\<lparr>socketOps := ops\<rparr>"
  by (auto simp: removeOldHandlers_def split: option.splits intro: exI[of _ "socketOps s"])

lemma attachToSocket_keeps:
  "pendingMessages (attachToSocket k so s) = pendingMessages s \<and>
   kernelSent (attachToSocket k so s) = kernelSent s \<and>
   waitingMessageIds (attachToSocket k so s) = waitingMessageIds s \<and>
   messageHookRequests (attachToSocket k so s) = messageHookRequests s \<and>
   messageHooks (attachToSocket k so s) = messageHooks s \<and>
   deferreds (attachToSocket k so s) = deferreds s \<and>
   isUsingIPyWidgets (attachToSocket k so s) = isUsingIPyWidgets s \<and>
   pendingTargetNames (attachToSocket k so s) = pendingTargetNames s \<and>
   filter (\<lambda>p. p = IPyWidgets_onRestartKernel) (posted (attachToSocket k so s)) =
     filter (\<lambda>p. p = IPyWidgets_onRestartKernel) (posted s)"
  by (auto simp: attachToSocket_def sendKernelOptions_def raisePostMessage_def Let_def
      split: option.splits)

lemma sendPendingMessages_empty:
  "pendingMessages s = [] \<Longrightarrow> sendPendingMessages c proto s = s"
  by (simp add: sendPendingMessages_def sendPendingLoop_Nil split: option.splits)

text \<open>
  Claim C3. Let \<^verbatim>\<open>subscribeToKernelSocketImpl\<close> run in a state that has connected to a
  kernel before, as it does when the kernel socket changes. If the call returns, the
  pending queue is empty and nothing was sent to the kernel, the tables of waiting
  messages, of hook requests and of hooks are empty, every promise that was in the table
  of waiting messages is resolved (one that was pending holds \<open>Resolved\<close>), every promise
  that was in the table of hook requests is settled, and exactly one restart notice was
  posted. The call does return whenever no empty name is among the pending comm targets.
\<close>

theorem restart_discards_and_resolves:
  assumes "kernelWasConnectedAtLeastOnce s"
  shows "(\<forall>s'. subscribeToKernelSocketImpl c kern oldId s = Some s' \<longrightarrow>
            pendingMessages s' = [] \<and> kernelSent s' = kernelSent s \<and>
            waitingMessageIds s' = [] \<and> messageHookRequests s' = [] \<and> messageHooks s' = {} \<and>
            (\<forall>(i, w) \<in> set (waitingMessageIds s).
               deferreds s' (resultPromise w) =
                 (if deferreds s (resultPromise w) = Pending then Resolved else deferreds s (resultPromise w))) \<and>
            (\<forall>(i, p) \<in> set (messageHookRequests s). deferreds s' p \<noteq> Pending) \<and>
            filter (\<lambda>p. p = IPyWidgets_onRestartKernel) (posted s') =
              filter (\<lambda>p. p = IPyWidgets_onRestartKernel) (posted s) @ [IPyWidgets_onRestartKernel]) \<and>
         ([] \<notin> set (pendingTargetNames s) \<longrightarrow> subscribeToKernelSocketImpl c kern oldId s \<noteq> None)"
proof -
  obtain ops where ro: "removeOldHandlers oldId s = s\<lparr>socketOps := ops\<rparr>"
    using removeOldHandlers_keeps by blast
  let ?s0 = "s\<lparr>socketOps := ops\<rparr>"
  let ?s2 = "discardOnRestart ?s0"
  have s2: "subscribeToKernelSocketImpl c kern oldId s =
      (case sessionKernel (Some kern) of
         None \<Rightarrow> Some ?s2
       | Some k \<Rightarrow>
           if kid k = [] then Some ?s2
           else (case map_of (KernelSocketMap ?s2) (kid k) of
                   None \<Rightarrow> Some ?s2
                 | Some newSocket \<Rightarrow>
                     (case registerCommTargets c kern (attachToSocket k newSocket ?s2) of
                        None \<Rightarrow> None
                      | Some s3 \<Rightarrow> Some (sendPendingMessages c (protocol newSocket) s3))))"
    using assms by (simp add: subscribeToKernelSocketImpl_def Let_def ro)
  obtain f where f: "?s2 = ?s0\<lparr>pendingMessages := [], waitingMessageIds := [], messageHookRequests := [],
       messageHooks := {}, deferreds := f, posted := posted ?s0 @ [IPyWidgets_onRestartKernel]\<rparr>"
    using discardOnRestart_frame[of ?s0] by blast
  have d: "pendingMessages ?s2 = []" "kernelSent ?s2 = kernelSent s" "waitingMessageIds ?s2 = []"
    "messageHookRequests ?s2 = []" "messageHooks ?s2 = {}"
    "posted ?s2 = posted s @ [IPyWidgets_onRestartKernel]" "pendingTargetNames ?s2 = pendingTargetNames s"
    by (simp_all add: f)
  have w: "\<forall>(i, w) \<in> set (waitingMessageIds s).
               deferreds ?s2 (resultPromise w) =
                 (if deferreds s (resultPromise w) = Pending then Resolved else deferreds s (resultPromise w))"
    using discardOnRestart_waiting[of _ _ ?s0] by auto
  have r: "\<forall>(i, p) \<in> set (messageHookRequests s). deferreds ?s2 p \<noteq> Pending"
    using discardOnRestart_requests[of _ _ ?s0] by auto
  let ?Q = "\<lambda>s'. pendingMessages s' = [] \<and> kernelSent s' = kernelSent s \<and>
            waitingMessageIds s' = [] \<and> messageHookRequests s' = [] \<and> messageHooks s' = {} \<and>
            (\<forall>(i, w) \<in> set (waitingMessageIds s).
               deferreds s' (resultPromise w) =
                 (if deferreds s (resultPromise w) = Pending then Resolved else deferreds s (resultPromise w))) \<and>
            (\<forall>(i, p) \<in> set (messageHookRequests s). deferreds s' p \<noteq> Pending) \<and>
            filter (\<lambda>p. p = IPyWidgets_onRestartKernel) (posted s') =
              filter (\<lambda>p. p = IPyWidgets_onRestartKernel) (posted s) @ [IPyWidgets_onRestartKernel]"
  have q2: "?Q ?s2" using d w r by simp
  have attached: "?Q s'" if reg: "registerCommTargets c kern (attachToSocket k so ?s2) = Some s3"
    and s': "s' = sendPendingMessages c proto s3" for k so s3 s' proto
  proof -
    from registerCommTargets_keeps[OF reg] attachToSocket_keeps[of k so ?s2] q2
    have "?Q s3" by simp
    moreover from this s' have "s' = s3" by (simp add: sendPendingMessages_empty)
    ultimately show ?thesis by simp
  qed
  have part1: "\<forall>s'. subscribeToKernelSocketImpl c kern oldId s = Some s' \<longrightarrow> ?Q s'"
  proof (intro allI impI)
    fix s' assume run: "subscribeToKernelSocketImpl c kern oldId s = Some s'"
    show "?Q s'"
    proof (cases "sessionKernel (Some kern)")
      case None
      with run q2 show ?thesis unfolding s2 by simp
    next
      case (Some k)
      show ?thesis
      proof (cases "kid k = [] \<or> map_of (KernelSocketMap ?s2) (kid k) = None")
        case True
        with run q2 Some show ?thesis
          unfolding s2 by (auto split: if_splits)
      next
        case False
        then obtain so where so: "kid k \<noteq> []" "map_of (KernelSocketMap ?s2) (kid k) = Some so" by auto
        with run Some obtain s3 where
          "registerCommTargets c kern (attachToSocket k so ?s2) = Some s3"
          "s' = sendPendingMessages c (protocol so) s3"
          unfolding s2 by (auto split: option.splits if_splits)
        then show ?thesis by (rule attached)
      qed
    qed
  qed
  have part2: "[] \<notin> set (pendingTargetNames s) \<longrightarrow> subscribeToKernelSocketImpl c kern oldId s \<noteq> None"
  proof
    assume ne: "[] \<notin> set (pendingTargetNames s)"
    have nn: "registerCommTargets c kern (attachToSocket k so ?s2) \<noteq> None" for k so
      using registerCommTargets_returns[of "attachToSocket k so ?s2" c kern] ne d(7)
        attachToSocket_keeps[of k so ?s2] by auto
    show "subscribeToKernelSocketImpl c kern oldId s \<noteq> None"
      unfolding s2 by (simp add: nn split: option.splits)
  qed
  from part1 part2 show ?thesis by blast
qed

lemmas hook_defs = messageHookCallback_def registerMessageHook_def removeMessageHook_def
  createDeferred_def raisePostMessage_def resolve_def Let_def

lemmas flush_defs = sendRawPayloadToKernelSocket_def sendPendingMessages_def sessionKernel_def
  socketProtocol_def decodePending_def kernelSend_def sendChannel_def outgoing_def logger_def
  sendPendingLoop_Nil sendPendingLoop_undecodable sendPendingLoop_thrown sendPendingLoop_sent

lemma busy_eval:
  "busy = mirroring\<lparr>pendingMessages := [Text ''D''], messageHookRequests := [(''uu'', 2)],
       messageHooks := {''m1''}, nextDeferred := 3, uuidCount := 2,
       posted := [IPyWidgets_kernelOptions ''k1'' ''c1'' ''u1'' ([], []) ''v1'',
                  IPyWidgets_msg ''u'' ''comm_open X'', IPyWidgets_mirror_execute ''m1'' execMsg,
                  IPyWidgets_ExtensionOperationHandled ''m1'' RegisterMessageHook,
                  IPyWidgets_MessageHookCall ''uu'' ''m1'' ((updateMsg ''m3'')\<lparr>parent_msg_id := ''m1''\<rparr>)],
       logged := [LogTrace ''Registering commtarget jupyter.widget'', sendFailure],
       kernelHookCalls := [KernelRegisterMessageHook ''m1'']\<rparr>"
  by (simp add: busy_def mirroring_eval tracking_eval connected_eval hook_defs flush_defs sample_defs
      sendFailure_def fun_upd_idem)

lemma restarted_eval:
  "onDidKernelSocketChange sampleCollab liveKernel busy =
     Some (busy\<lparr>pendingMessages := [], waitingMessageIds := [], messageHookRequests := [],
       messageHooks := {},
       deferreds := (\<lambda>p. Pending)(0 := Resolved, 1 := Resolved, 2 := ResolvedWith False),
       kernelSocketHandlers := [(0, 2, 3)], nextHook := 4,
       posted := posted busy @ [IPyWidgets_onRestartKernel,
                                IPyWidgets_kernelOptions ''k1'' ''c1'' ''u1'' ([], []) ''v1''],
       socketOps := [AddReceiveHook 0 0, AddSendHook 0 1, RemoveReceiveHook 0 0, RemoveSendHook 0 1,
                     AddReceiveHook 0 2, AddSendHook 0 3]\<rparr>)"
  by (simp add: onDidKernelSocketChange_def busy_eval mirroring_eval tracking_eval connected_eval
      eval_defs sample_defs sendFailure_def)

lemma impl_busy:
  "subscribeToKernelSocketImpl sampleCollab liveKernel (Some ''k1'') busy =
     Some (busy\<lparr>pendingMessages := [], waitingMessageIds := [], messageHookRequests := [],
       messageHooks := {},
       deferreds := (\<lambda>p. Pending)(0 := Resolved, 1 := Resolved, 2 := ResolvedWith False),
       kernelSocketHandlers := [(0, 2, 3)], nextHook := 4,
       posted := posted busy @ [IPyWidgets_onRestartKernel,
                                IPyWidgets_kernelOptions ''k1'' ''c1'' ''u1'' ([], []) ''v1''],
       socketOps := [AddReceiveHook 0 0, AddSendHook 0 1, RemoveReceiveHook 0 0, RemoveSendHook 0 1,
                     AddReceiveHook 0 2, AddSendHook 0 3]\<rparr>)"
  by (simp add: busy_eval mirroring_eval tracking_eval connected_eval
      eval_defs sample_defs sendFailure_def)

theorem restart_discards_and_resolves_witness:
  "kernelWasConnectedAtLeastOnce busy \<and> [] \<notin> set (pendingTargetNames busy) \<and>
   pendingMessages busy = [Text ''D''] \<and>
   waitingMessageIds busy = [(''u'', \<lparr>resultPromise = 0, startTime = 0\<rparr>),
                             (''m1'', \<lparr>resultPromise = 1, startTime = 0\<rparr>)] \<and>
   messageHookRequests busy = [(''uu'', 2)] \<and> messageHooks busy = {''m1''} \<and>
   subscribeToKernelSocketImpl sampleCollab liveKernel (Some ''k1'') busy \<noteq> None \<and>
   map_option pendingMessages (subscribeToKernelSocketImpl sampleCollab liveKernel (Some ''k1'') busy) = Some [] \<and>
   map_option kernelSent (subscribeToKernelSocketImpl sampleCollab liveKernel (Some ''k1'') busy) = Some [] \<and>
   map_option waitingMessageIds (subscribeToKernelSocketImpl sampleCollab liveKernel (Some ''k1'') busy) = Some [] \<and>
   map_option messageHookRequests (subscribeToKernelSocketImpl sampleCollab liveKernel (Some ''k1'') busy) = Some [] \<and>
   map_option messageHooks (subscribeToKernelSocketImpl sampleCollab liveKernel (Some ''k1'') busy) = Some {} \<and>
   map_option deferreds (subscribeToKernelSocketImpl sampleCollab liveKernel (Some ''k1'') busy) =
     Some ((\<lambda>p. Pending)(0 := Resolved, 1 := Resolved, 2 := ResolvedWith False)) \<and>
   map_option posted (subscribeToKernelSocketImpl sampleCollab liveKernel (Some ''k1'') busy) =
     Some (posted busy @ [IPyWidgets_onRestartKernel,
                          IPyWidgets_kernelOptions ''k1'' ''c1'' ''u1'' ([], []) ''v1''])"
proof -
  have b: "kernelWasConnectedAtLeastOnce busy" "[] \<notin> set (pendingTargetNames busy)"
    "pendingMessages busy = [Text ''D'']"
    "waitingMessageIds busy = [(''u'', \<lparr>resultPromise = 0, startTime = 0\<rparr>),
                               (''m1'', \<lparr>resultPromise = 1, startTime = 0\<rparr>)]"
    "messageHookRequests busy = [(''uu'', 2)]" "messageHooks busy = {''m1''}"
    "kernelSent busy = []"
    by (simp_all add: busy_eval mirroring_eval tracking_eval connected_eval sample_defs)
  from restart_discards_and_resolves[OF b(1), of sampleCollab liveKernel "Some ''k1''"] b
  show ?thesis
    by (simp add: impl_busy)
qed

text \<open>
  Claim C7, as stated, fails in its second half: with widget usage observed, the send hook
  of the sample scenario is suspended on the wait for \<open>m1\<close>; no acknowledgement ever
  arrives, the kernel socket changes, and the hook completes.
\<close>

theorem mirrorSend_released_by_restart_counterexample:
  "isUsingIPyWidgets tracking \<and>
   fst (mirrorSend sampleCollab ''v1'' (Text ''shell execute_request'') tracking) = AwaitMirror 1 \<and>
   fst (resume (AwaitMirror 1) busy) = AwaitMirror 1 \<and>
   map_of (waitingMessageIds busy) ''m1'' = Some \<lparr>resultPromise = 1, startTime = 0\<rparr> \<and>
   onDidKernelSocketChange sampleCollab liveKernel busy \<noteq> None \<and>
   fst (resume (AwaitMirror 1) restarted) = Completed"
proof -
  have o: "outboundExecute sampleCollab ''v1'' (Text ''shell execute_request'') execMsg
     \<lparr>msg_type = ''execute_request'', msg_id = ''m1''\<rparr>"
    by (simp add: outboundExecute_def sample_defs)
  have t: "isUsingIPyWidgets tracking" "nextDeferred tracking = 1"
    by (simp_all add: tracking_eval connected_eval sample_defs)
  have b: "deferreds busy 1 = Pending"
    "map_of (waitingMessageIds busy) ''m1'' = Some \<lparr>resultPromise = 1, startTime = 0\<rparr>"
    by (simp_all add: busy_eval mirroring_eval tracking_eval connected_eval sample_defs)
  have r: "deferreds restarted 1 = Resolved"
    by (simp add: restarted_def restarted_eval)
  show ?thesis
    using t b r by (simp add: mirrorSend_execute[OF o] restarted_eval resume_def)
qed

text \<open>
  Claim C7, amended. For an outbound shell \<^verbatim>\<open>execute_request\<close> that the mirroring predicate
  accepts, the send hook posts the mirror request and registers a pending wait under the
  message id. Without widget usage observed it completes at once. With widget usage
  observed it is suspended on that wait and stays so while the wait is pending; the
  acknowledgement of the message id by the render surface resolves the wait, and so does
  the discarding of all waits at a kernel restart, and then the hook completes.
\<close>

theorem mirrorSend_waits_when_widgets_used:
  "outboundExecute c proto d m h \<longrightarrow>
     posted (snd (mirrorSend c proto d s)) = posted s @ [IPyWidgets_mirror_execute (msg_id h) m] \<and>
     map_of (waitingMessageIds (snd (mirrorSend c proto d s))) (msg_id h) =
       Some \<lparr>resultPromise = nextDeferred s, startTime = clock s\<rparr> \<and>
     deferreds (snd (mirrorSend c proto d s)) (nextDeferred s) = Pending \<and>
     (\<not> isUsingIPyWidgets s \<longrightarrow> fst (mirrorSend c proto d s) = Completed) \<and>
     (isUsingIPyWidgets s \<longrightarrow>
        fst (mirrorSend c proto d s) = AwaitMirror (nextDeferred s) \<and>
        resume (AwaitMirror (nextDeferred s)) (snd (mirrorSend c proto d s)) =
          (AwaitMirror (nextDeferred s), snd (mirrorSend c proto d s)) \<and>
        fst (resume (AwaitMirror (nextDeferred s))
               (onKernelSocketResponse (msg_id h) (snd (mirrorSend c proto d s)))) = Completed \<and>
        fst (resume (AwaitMirror (nextDeferred s))
               (discardOnRestart (snd (mirrorSend c proto d s)))) = Completed)"
proof
  assume o: "outboundExecute c proto d m h"
  let ?s' = "snd (mirrorSend c proto d s)"
  note ms = mirrorSend_execute[OF o, of s]
  have w: "map_of (waitingMessageIds ?s') (msg_id h) =
       Some \<lparr>resultPromise = nextDeferred s, startTime = clock s\<rparr>"
    by (simp add: ms update_conv')
  then have mem: "(msg_id h, \<lparr>resultPromise = nextDeferred s, startTime = clock s\<rparr>) \<in> set (waitingMessageIds ?s')"
    by (rule map_of_SomeD)
  have p: "deferreds ?s' (nextDeferred s) = Pending" by (simp add: ms)
  have r: "deferreds (discardOnRestart ?s') (nextDeferred s) = Resolved"
    using discardOnRestart_waiting[OF mem] p by simp
  have a: "deferreds (onKernelSocketResponse (msg_id h) ?s') (nextDeferred s) = Resolved"
    using w p by (simp add: onKernelSocketResponse_def resolve_def)
  show "posted ?s' = posted s @ [IPyWidgets_mirror_execute (msg_id h) m] \<and>
     map_of (waitingMessageIds ?s') (msg_id h) =
       Some \<lparr>resultPromise = nextDeferred s, startTime = clock s\<rparr> \<and>
     deferreds ?s' (nextDeferred s) = Pending \<and>
     (\<not> isUsingIPyWidgets s \<longrightarrow> fst (mirrorSend c proto d s) = Completed) \<and>
     (isUsingIPyWidgets s \<longrightarrow>
        fst (mirrorSend c proto d s) = AwaitMirror (nextDeferred s) \<and>
        resume (AwaitMirror (nextDeferred s)) ?s' = (AwaitMirror (nextDeferred s), ?s') \<and>
        fst (resume (AwaitMirror (nextDeferred s)) (onKernelSocketResponse (msg_id h) ?s')) = Completed \<and>
        fst (resume (AwaitMirror (nextDeferred s)) (discardOnRestart ?s')) = Completed)"
    using w p r a by (simp add: resume_def) (simp add: ms)
qed

theorem mirrorSend_waits_when_widgets_used_witness:
  "outboundExecute sampleCollab ''v1'' (Text ''shell execute_request'') execMsg
     \<lparr>msg_type = ''execute_request'', msg_id = ''m1''\<rparr> \<and>
   \<not> isUsingIPyWidgets connected \<and>
   fst (mirrorSend sampleCollab ''v1'' (Text ''shell execute_request'') connected) = Completed \<and>
   isUsingIPyWidgets tracking \<and>
   fst (mirrorSend sampleCollab ''v1'' (Text ''shell execute_request'') tracking) = AwaitMirror 1 \<and>
   posted mirroring = posted tracking @ [IPyWidgets_mirror_execute ''m1'' execMsg] \<and>
   resume (AwaitMirror 1) mirroring = (AwaitMirror 1, mirroring) \<and>
   fst (resume (AwaitMirror 1) (onKernelSocketResponse ''m1'' mirroring)) = Completed \<and>
   fst (resume (AwaitMirror 1) (discardOnRestart mirroring)) = Completed"
proof -
  have o: "outboundExecute sampleCollab ''v1'' (Text ''shell execute_request'') execMsg
     \<lparr>msg_type = ''execute_request'', msg_id = ''m1''\<rparr>"
    by (simp add: outboundExecute_def sample_defs)
  have f: "\<not> isUsingIPyWidgets connected" "isUsingIPyWidgets tracking" "nextDeferred tracking = 1"
    "msg_id \<lparr>msg_type = ''execute_request'', msg_id = ''m1''\<rparr> = ''m1''"
    by (simp_all add: tracking_eval connected_eval sample_defs)
  from mirrorSend_waits_when_widgets_used
      [of sampleCollab "''v1''" "Text ''shell execute_request''" execMsg
          "\<lparr>msg_type = ''execute_request'', msg_id = ''m1''\<rparr>" connected]
    mirrorSend_waits_when_widgets_used
      [of sampleCollab "''v1''" "Text ''shell execute_request''" execMsg
          "\<lparr>msg_type = ''execute_request'', msg_id = ''m1''\<rparr>" tracking]
    o f
  show ?thesis
    unfolding mirroring_def[symmetric] by simp
qed

subsection \<open>Message hook decisions\<close>

text \<open>
  Claim C9. A message hook response whose request id has a pending waiter resolves that
  waiter with \<open>True\<close> when the reported message type contains \<^verbatim>\<open>comm\<close>, whatever the
  reported result, and with the reported result otherwise, and removes the waiter; a
  response whose request id has no waiter leaves the state as it is.
\<close>

theorem handleMessageHookResponse_comm_proceeds:
  "(map_of (messageHookRequests s) (requestId args) = Some p \<longrightarrow> deferreds s p = Pending \<longrightarrow>
      deferreds (handleMessageHookResponse args s) p =
        ResolvedWith (if str_includes (msgType args) ''comm'' then True else result args) \<and>
      map_of (messageHookRequests (handleMessageHookResponse args s)) (requestId args) = None) \<and>
   (map_of (messageHookRequests s) (requestId args) = None \<longrightarrow> handleMessageHookResponse args s = s)"
  by (simp add: handleMessageHookResponse_def resolve_def delete_conv)

theorem handleMessageHookResponse_comm_proceeds_witness:
  "map_of (messageHookRequests (newDispatcher\<lparr>messageHookRequests := [(''r1'', 0)]\<rparr>)) ''r1'' = Some 0 \<and>
   deferreds (newDispatcher\<lparr>messageHookRequests := [(''r1'', 0)]\<rparr>) 0 = Pending \<and>
   deferreds (handleMessageHookResponse
                \<lparr>requestId = ''r1'', parentId = ''p1'', msgType = ''comm_msg'', result = False\<rparr>
                (newDispatcher\<lparr>messageHookRequests := [(''r1'', 0)]\<rparr>)) 0 = ResolvedWith True \<and>
   deferreds (handleMessageHookResponse
                \<lparr>requestId = ''r1'', parentId = ''p1'', msgType = ''stream'', result = False\<rparr>
                (newDispatcher\<lparr>messageHookRequests := [(''r1'', 0)]\<rparr>)) 0 = ResolvedWith False \<and>
   map_of (messageHookRequests (newDispatcher\<lparr>messageHookRequests := [(''r1'', 0)]\<rparr>)) ''r2'' = None \<and>
   handleMessageHookResponse
     \<lparr>requestId = ''r2'', parentId = ''p1'', msgType = ''stream'', result = True\<rparr>
     (newDispatcher\<lparr>messageHookRequests := [(''r1'', 0)]\<rparr>) = newDispatcher\<lparr>messageHookRequests := [(''r1'', 0)]\<rparr>"
  using handleMessageHookResponse_comm_proceeds
      [of "newDispatcher\<lparr>messageHookRequests := [(''r1'', 0)]\<rparr>"
          "\<lparr>requestId = ''r1'', parentId = ''p1'', msgType = ''comm_msg'', result = False\<rparr>" 0]
    handleMessageHookResponse_comm_proceeds
      [of "newDispatcher\<lparr>messageHookRequests := [(''r1'', 0)]\<rparr>"
          "\<lparr>requestId = ''r1'', parentId = ''p1'', msgType = ''stream'', result = False\<rparr>" 0]
    handleMessageHookResponse_comm_proceeds
      [of "newDispatcher\<lparr>messageHookRequests := [(''r1'', 0)]\<rparr>"
          "\<lparr>requestId = ''r2'', parentId = ''p1'', msgType = ''stream'', result = True\<rparr>" 0]
  by (simp add: newDispatcher_def)

subsection \<open>Disposal\<close>

lemma disposeLoop_eq:
  "disposeLoop s = s\<lparr>disposables := [], unsubscribed := unsubscribed s @ disposables s\<rparr>"
proof (induction s rule: disposeLoop.induct)
  case (1 s)
  show ?case
  proof (cases "disposables s")
    case Nil
    then show ?thesis by (subst disposeLoop.simps) simp
  next
    case (Cons d rest)
    then show ?thesis
      by (subst disposeLoop.simps) (simp add: "1.IH"[OF Cons])
  qed
qed

text \<open>
  Claim C6, as stated, fails: \<^verbatim>\<open>dispose\<close> resolves nothing. In the sample scenario the wait of
  the mirrored execute request, the hook request and the full-handle gate are as pending
  after disposal as before, and the methods suspended on them stay suspended.
\<close>

theorem dispose_leaves_waits_pending_counterexample:
  "map_of (waitingMessageIds busy) ''m1'' = Some \<lparr>resultPromise = 1, startTime = 0\<rparr> \<and>
   deferreds busy 1 = Pending \<and>
   map_of (waitingMessageIds (dispose busy)) ''m1'' = Some \<lparr>resultPromise = 1, startTime = 0\<rparr> \<and>
   deferreds (dispose busy) 1 = Pending \<and>
   resume (AwaitMirror 1) (dispose busy) = (AwaitMirror 1, dispose busy) \<and>
   map_of (messageHookRequests (dispose busy)) ''uu'' = Some 2 \<and>
   deferreds (dispose busy) 2 = Pending \<and>
   fullHandleMessage (dispose gated) = Some \<lparr>fid = ''m3'', promise = 2\<rparr> \<and>
   deferreds (dispose gated) 2 = Pending \<and>
   resume (AwaitFullHandle 2) (dispose gated) = (AwaitFullHandle 2, dispose gated)"
proof -
  have b: "map_of (waitingMessageIds busy) ''m1'' = Some \<lparr>resultPromise = 1, startTime = 0\<rparr>"
    "deferreds busy 1 = Pending" "map_of (messageHookRequests busy) ''uu'' = Some 2"
    "deferreds busy 2 = Pending"
    by (simp_all add: busy_eval mirroring_eval tracking_eval connected_eval sample_defs)
  have g: "fullHandleMessage gated = Some \<lparr>fid = ''m3'', promise = 2\<rparr>" "deferreds gated 2 = Pending"
    by (simp_all add: gated_eval tracking_eval connected_eval sample_defs)
  show ?thesis
    using b g by (simp add: dispose_def disposeLoop_eq resume_def)
qed

text \<open>
  Claim C6, amended. \<^verbatim>\<open>dispose\<close> sets the disposed flag and releases every subscription it
  holds, in order, leaving none, and changes nothing else: the waiting messages, the hook
  requests, the full-handle gate and all promises are left exactly as they were. A
  suspended method \<open>t\<close> that is run again after disposal goes exactly as far as it would have
  gone without it, and one that waits for a promise \<open>p\<close> that is pending stays suspended.
\<close>

theorem dispose_only_unsubscribes:
  "dispose s = s\<lparr>disposed := True, disposables := [], unsubscribed := unsubscribed s @ disposables s\<rparr> \<and>
   disposed (dispose s) \<and> disposables (dispose s) = [] \<and>
   unsubscribed (dispose s) = unsubscribed s @ disposables s \<and>
   waitingMessageIds (dispose s) = waitingMessageIds s \<and>
   messageHookRequests (dispose s) = messageHookRequests s \<and>
   fullHandleMessage (dispose s) = fullHandleMessage s \<and>
   deferreds (dispose s) = deferreds s \<and>
   fst (resume t (dispose s)) = fst (resume t s) \<and>
   (deferreds s p = Pending \<longrightarrow>
      deferreds (dispose s) p = Pending \<and>
      resume (AwaitMirror p) (dispose s) = (AwaitMirror p, dispose s) \<and>
      resume (AwaitSocketAck p) (dispose s) = (AwaitSocketAck p, dispose s) \<and>
      resume (AwaitFullHandle p) (dispose s) = (AwaitFullHandle p, dispose s))"
  by (cases t) (simp_all add: dispose_def disposeLoop_eq resume_def split: option.splits)

theorem dispose_only_unsubscribes_witness:
  "deferreds busy 1 = Pending \<and>
   deferreds (dispose busy) 1 = Pending \<and>
   resume (AwaitMirror 1) (dispose busy) = (AwaitMirror 1, dispose busy) \<and>
   resume (AwaitSocketAck 1) (dispose busy) = (AwaitSocketAck 1, dispose busy) \<and>
   resume (AwaitFullHandle 1) (dispose busy) = (AwaitFullHandle 1, dispose busy) \<and>
   disposables busy = [OnDidStartKernel, OnRestarted] \<and>
   disposables (dispose busy) = [] \<and>
   unsubscribed (dispose busy) = unsubscribed busy @ disposables busy \<and>
   waitingMessageIds (dispose busy) = waitingMessageIds busy"
proof -
  have b: "deferreds busy 1 = Pending" "disposables busy = [OnDidStartKernel, OnRestarted]"
    by (simp_all add: busy_eval mirroring_eval tracking_eval connected_eval sample_defs)
  from dispose_only_unsubscribes[where s = busy and p = 1 and t = "AwaitMirror 1"] b
  show ?thesis by blast
qed


subsection \<open>Frames that cannot be deserialised\<close>

text \<open>
  Claim C8, as stated, fails for inbound frames: the receive hook has no handler around
  the deserialiser. For the garbled sample frame the hook is rejected, nothing is logged,
  and the frame has been posted to the render surface before.
\<close>

theorem undecodable_inbound_frame_rejects_counterexample:
  "mustDeserialize sampleCollab (Text ''comm_msg garbled'') \<and>
   deserialize sampleCollab (Text ''comm_msg garbled'') ''v1'' = None \<and>
   fst (onKernelSocketMessage sampleCollab ''v1'' (Text ''comm_msg garbled'') connected) = Rejected ''deserialize'' \<and>
   logged (snd (onKernelSocketMessage sampleCollab ''v1'' (Text ''comm_msg garbled'') connected)) = logged connected \<and>
   posted (snd (onKernelSocketMessage sampleCollab ''v1'' (Text ''comm_msg garbled'') connected)) =
     posted connected @ [IPyWidgets_msg ''u'' ''comm_msg garbled'']"
  by (simp add: connected_eval inbound_defs sample_defs)

lemma forwardFrame_undecodable:
  "deserialize c d proto = None \<Longrightarrow>
   logged (snd (forwardFrame c proto d u s)) =
     logged s @ (if isText d then [] else [ConsoleError (serializeDataViews c d)]) \<and>
   posted (snd (forwardFrame c proto d u s)) =
     posted s @ (case d of
                   Text t \<Rightarrow> if shouldMirrorText c t then [IPyWidgets_msg u t] else []
                 | _ \<Rightarrow> [IPyWidgets_binary_msg u (serializeDataViews c d)])"
  by (cases d) (simp_all add: forwardFrame_def raisePostMessage_def logger_def isText_def Let_def)

text \<open>
  Claim C8, amended. An outbound frame that is not a string and whose deserialisation
  throws is caught in the send hook: the error is logged, nothing is mirrored and the hook
  completes. An inbound frame that has to be deserialised and whose deserialisation throws
  rejects the receive hook with that exception; the dispatcher logs no error for it, and
  the frame was already posted to the render surface (a string frame when the mirroring
  predicate accepts the string, any other frame always).
\<close>

theorem undecodable_frames:
  "(\<not> isText d \<and> deserialize c d proto = None \<longrightarrow>
      mirrorSend c proto d s = (Completed, logger (LogError ''Failed to mirror message to kernel'') s)) \<and>
   (mustDeserialize c d \<and> deserialize c d proto = None \<longrightarrow>
      fst (onKernelSocketMessage c proto d s) = Rejected ''deserialize'' \<and>
      logged (snd (onKernelSocketMessage c proto d s)) =
        logged s @ (if isText d then [] else [ConsoleError (serializeDataViews c d)]) \<and>
      posted (snd (onKernelSocketMessage c proto d s)) =
        posted s @ (case d of
                      Text t \<Rightarrow> if shouldMirrorText c t then [IPyWidgets_msg (generateUuid c (uuidCount s)) t] else []
                    | _ \<Rightarrow> [IPyWidgets_binary_msg (generateUuid c (uuidCount s)) (serializeDataViews c d)]))"
proof (intro conjI impI)
  assume "\<not> isText d \<and> deserialize c d proto = None"
  then show "mirrorSend c proto d s = (Completed, logger (LogError ''Failed to mirror message to kernel'') s)"
    by (cases d) (simp_all add: mirrorSend_def isText_def)
next
  assume a: "mustDeserialize c d \<and> deserialize c d proto = None"
  let ?u = "generateUuid c (uuidCount s)"
  let ?s1 = "(snd (createDeferred (s\<lparr>uuidCount := Suc (uuidCount s)\<rparr>)))
                 \<lparr>waitingMessageIds :=
                    AList.update ?u \<lparr>resultPromise = fst (createDeferred (s\<lparr>uuidCount := Suc (uuidCount s)\<rparr>)),
                       startTime = clock (s\<lparr>uuidCount := Suc (uuidCount s)\<rparr>)\<rparr>
                      (waitingMessageIds (s\<lparr>uuidCount := Suc (uuidCount s)\<rparr>))\<rparr>"
  have f: "fst (forwardFrame c proto d ?u ?s1) = Inl ''deserialize'' \<or>
           fst (forwardFrame c proto d ?u ?s1) = Inr None"
    using a by (cases d) (auto simp: forwardFrame_def Let_def)
  have st: "snd (onKernelSocketMessage c proto d s) = snd (forwardFrame c proto d ?u ?s1)"
    using a f by (auto simp: onKernelSocketMessage_def Let_def)
  show "fst (onKernelSocketMessage c proto d s) = Rejected ''deserialize''"
    using a f by (auto simp: onKernelSocketMessage_def Let_def)
  from a forwardFrame_undecodable[of c d proto ?u ?s1]
  show "logged (snd (onKernelSocketMessage c proto d s)) =
        logged s @ (if isText d then [] else [ConsoleError (serializeDataViews c d)])"
    and "posted (snd (onKernelSocketMessage c proto d s)) =
        posted s @ (case d of
                      Text t \<Rightarrow> if shouldMirrorText c t then [IPyWidgets_msg ?u t] else []
                    | _ \<Rightarrow> [IPyWidgets_binary_msg ?u (serializeDataViews c d)])"
    unfolding st by (simp_all add: createDeferred_def)
qed

theorem undecodable_frames_witness:
  "\<not> isText (Binary [2]) \<and> deserialize sampleCollab (Binary [2]) ''v1'' = None \<and>
   mirrorSend sampleCollab ''v1'' (Binary [2]) connected =
     (Completed, logger (LogError ''Failed to mirror message to kernel'') connected) \<and>
   mustDeserialize sampleCollab (Text ''comm_msg garbled'') \<and>
   deserialize sampleCollab (Text ''comm_msg garbled'') ''v1'' = None \<and>
   fst (onKernelSocketMessage sampleCollab ''v1'' (Text ''comm_msg garbled'') connected) = Rejected ''deserialize'' \<and>
   logged (snd (onKernelSocketMessage sampleCollab ''v1'' (Text ''comm_msg garbled'') connected)) = logged connected \<and>
   posted (snd (onKernelSocketMessage sampleCollab ''v1'' (Text ''comm_msg garbled'') connected)) =
     posted connected @ [IPyWidgets_msg ''u'' ''comm_msg garbled'']"
proof -
  have h: "\<not> isText (Binary [2])" "deserialize sampleCollab (Binary [2]) ''v1'' = None"
    "mustDeserialize sampleCollab (Text ''comm_msg garbled'')"
    "deserialize sampleCollab (Text ''comm_msg garbled'') ''v1'' = None"
    "isText (Text ''comm_msg garbled'')" "shouldMirrorText sampleCollab ''comm_msg garbled''"
    "generateUuid sampleCollab (uuidCount connected) = ''u''"
    by (simp_all add: isText_def mustDeserialize_def connected_eval sample_defs)
  from undecodable_frames[of "Binary [2]" sampleCollab "''v1''" connected]
    undecodable_frames[of "Text ''comm_msg garbled''" sampleCollab "''v1''" connected] h
  show ?thesis by simp
qed

subsection \<open>Comm targets requested again\<close>

lemmas target_defs = step_def receiveMessage_def registerCommTarget_def initialize_def getKernel_def
  subscribeToKernelSocket_def registerOneTarget_def sessionKernel_def logger_def setAdd_def setDelete_def
  registerCommTargets_Nil registerCommTargets_registered registerCommTargets_fresh

text \<open>
  Claim C2, evaluated where the code departs from it. With a live kernel the render
  surface requests the targets \<open>a\<close>, \<open>a\<close> and \<open>b\<close>. The second request finds \<open>a\<close> registered
  and returns with \<open>a\<close> still pending; from then on every call stops at \<open>a\<close>, so \<open>b\<close> is
  never registered: the registered set is the default target and \<open>a\<close>, both \<open>a\<close> and \<open>b\<close>
  stay pending, and the kernel connection was asked to register \<open>a\<close> only.
\<close>

theorem registerCommTargets_stuck_on_repeat:
  "map_option commTargetsRegistered
     (run sampleCollab
        [ReceiveMessage (Recv_registerCommTarget ''a''), ReceiveMessage (Recv_registerCommTarget ''a''),
         ReceiveMessage (Recv_registerCommTarget ''b'')] connected) = Some [''jupyter.widget'', ''a''] \<and>
   map_option pendingTargetNames
     (run sampleCollab
        [ReceiveMessage (Recv_registerCommTarget ''a''), ReceiveMessage (Recv_registerCommTarget ''a''),
         ReceiveMessage (Recv_registerCommTarget ''b'')] connected) = Some [''a'', ''b''] \<and>
   map_option kernelCommTargetCalls
     (run sampleCollab
        [ReceiveMessage (Recv_registerCommTarget ''a''), ReceiveMessage (Recv_registerCommTarget ''a''),
         ReceiveMessage (Recv_registerCommTarget ''b'')] connected) = Some [(0, ''a'')]"
  by (simp add: connected_eval target_defs sample_defs)

lemma registerCommTargets_empty_name:
  assumes p: "pendingTargetNames s = [] # rest"
  shows "registerCommTargets c k s = None"
proof (cases "registerCommTargets c k s")
  case None
  then show ?thesis .
next
  case (Some s')
  have "\<forall>rest. pendingTargetNames s \<noteq> [] # rest"
  proof (rule registerCommTargets.raw_induct
      [where P = "\<lambda>c k s s'. \<forall>rest. pendingTargetNames s \<noteq> [] # rest", OF _ Some])
    fix rct c k s s'
    assume IH: "\<And>c k s s'. rct c k s = Some s' \<Longrightarrow> \<forall>rest. pendingTargetNames s \<noteq> [] # rest"
      and step: "(case pendingTargetNames s of
          [] \<Rightarrow> Some s
        | targetName # rest \<Rightarrow>
            if targetName = [] then rct c k s
            else if targetName \<in> set (commTargetsRegistered s) then Some s
            else rct c k (registerOneTarget c k targetName s)) = Some s'"
    show "\<forall>rest. pendingTargetNames s \<noteq> [] # rest"
    proof (intro allI notI)
      fix rest assume "pendingTargetNames s = [] # rest"
      with step have "rct c k s = Some s'" by simp
      from IH[OF this] \<open>pendingTargetNames s = [] # rest\<close> show False by blast
    qed
  qed
  with p show ?thesis by blast
qed

lemma registerCommTarget_empty_name_spins:
  "run sampleCollab [ReceiveMessage (Recv_registerCommTarget [])] connected = None"
  by (simp add: connected_eval step_def receiveMessage_def registerCommTarget_def initialize_def
      getKernel_def subscribeToKernelSocket_def setAdd_def registerCommTargets_empty_name sample_defs)

subsection \<open>The widget flag is never reset\<close>

lemma flag_sendPendingLoop:
  "isUsingIPyWidgets (sendPendingLoop c proto s) = isUsingIPyWidgets s"
proof (induction c proto s rule: sendPendingLoop.induct)
  case (1 c proto s)
  show ?case
  proof (cases "pendingMessages s")
    case Nil
    then show ?thesis by (simp add: sendPendingLoop_Nil)
  next
    case (Cons message rest)
    show ?thesis
    proof (cases "decodePending c proto message")
      case None
      with Cons show ?thesis by (simp add: sendPendingLoop_undecodable logger_def)
    next
      case (Some m)
      have k: "isUsingIPyWidgets (snd (kernelSend (sendChannel m) (outgoing m) s)) = isUsingIPyWidgets s"
        by (auto simp: kernelSend_def split: list.splits)
      show ?thesis
      proof (cases "fst (kernelSend (sendChannel m) (outgoing m) s)")
        case False
        with Cons Some k show ?thesis by (simp add: sendPendingLoop_thrown logger_def)
      next
        case True
        from "1.IH"[OF Cons Some True] Cons Some True k show ?thesis
          by (simp add: sendPendingLoop_sent)
      qed
    qed
  qed
qed

lemma flag_sendPendingMessages:
  "isUsingIPyWidgets (sendPendingMessages c proto s) = isUsingIPyWidgets s"
  by (simp add: sendPendingMessages_def flag_sendPendingLoop split: option.splits)

lemma flag_discardOnRestart:
  "isUsingIPyWidgets (discardOnRestart s) = isUsingIPyWidgets s"
proof -
  obtain f where "discardOnRestart s =
     s\<lparr>pendingMessages := [], waitingMessageIds := [], messageHookRequests := [], messageHooks := {},
       deferreds := f, posted := posted s @ [IPyWidgets_onRestartKernel]\<rparr>"
    using discardOnRestart_frame by blast
  then show ?thesis by simp
qed

lemma flag_removeOldHandlers:
  "isUsingIPyWidgets (removeOldHandlers oldId s) = isUsingIPyWidgets s"
proof -
  obtain ops where "removeOldHandlers oldId s = s\<lparr>socketOps := ops\<rparr>"
    using removeOldHandlers_keeps by blast
  then show ?thesis by simp
qed

lemma flag_subscribeToKernelSocketImpl:
  "subscribeToKernelSocketImpl c kern oldId s = Some s' \<Longrightarrow> isUsingIPyWidgets s' = isUsingIPyWidgets s"
  by (auto simp: subscribeToKernelSocketImpl_def Let_def flag_sendPendingMessages flag_discardOnRestart
      flag_removeOldHandlers attachToSocket_keeps
      dest!: registerCommTargets_keeps split: option.splits if_splits)

lemma flag_subscribeToKernelSocket:
  "subscribeToKernelSocket c kern s = Some s' \<Longrightarrow> isUsingIPyWidgets s' = isUsingIPyWidgets s"
  by (auto simp: subscribeToKernelSocket_def dest!: flag_subscribeToKernelSocketImpl
      split: option.splits if_splits)

lemma flag_getKernel:
  "isUsingIPyWidgets (snd (getKernel s)) = isUsingIPyWidgets s"
  by (simp add: getKernel_def Let_def)

lemma flag_initialize:
  "initialize c s = Some s' \<Longrightarrow> isUsingIPyWidgets s' = isUsingIPyWidgets s"
  by (auto simp: initialize_def flag_getKernel
      dest!: flag_subscribeToKernelSocket registerCommTargets_keeps split: option.splits)

lemma flag_handleKernelRestarts:
  "handleKernelRestarts c s = Some s' \<Longrightarrow> isUsingIPyWidgets s' = isUsingIPyWidgets s"
  by (auto simp: handleKernelRestarts_def
      dest!: flag_subscribeToKernelSocket registerCommTargets_keeps split: option.splits if_splits)

lemma flag_receiveMessage:
  "receiveMessage c m s = Some (e, s') \<Longrightarrow> isUsingIPyWidgets s' = isUsingIPyWidgets s"
  by (cases m)
     (auto simp: receiveMessage_def logger_def sendRawPayloadToKernelSocket_def flag_sendPendingMessages
        onKernelSocketResponse_def resolve_def registerCommTarget_def registerMessageHook_def
        possiblyRemoveMessageHook_def removeMessageHook_def raisePostMessage_def
        handleMessageHookResponse_def iopubMessageHandled_def sendKernelOptions_def
      dest!: flag_initialize split: option.splits if_splits list.splits)

lemma flag_classify:
  "isUsingIPyWidgets s \<Longrightarrow> isUsingIPyWidgets (snd (classify c ack m s))"
  by (auto simp: classify_def Let_def createDeferred_def split: option.splits)

lemma flag_onKernelSocketMessage:
  "isUsingIPyWidgets s \<Longrightarrow> isUsingIPyWidgets (snd (onKernelSocketMessage c proto d s))"
  by (auto simp: onKernelSocketMessage_def Let_def createDeferred_def forwardFrame_fields
      intro!: flag_classify split: sum.splits option.splits)

lemma flag_mirrorParsed:
  "isUsingIPyWidgets (snd (mirrorParsed c m s)) = isUsingIPyWidgets s"
  by (auto simp: mirrorParsed_def mirrorExecuteRequest_def createDeferred_def raisePostMessage_def Let_def
      split: option.splits)

lemma flag_mirrorSend:
  "isUsingIPyWidgets (snd (mirrorSend c proto d s)) = isUsingIPyWidgets s"
  by (cases d)
     (auto simp: mirrorSend_def flag_mirrorParsed logger_def split: option.splits task.splits)

lemma flag_messageHookCallback:
  "isUsingIPyWidgets (snd (messageHookCallback c m s)) = isUsingIPyWidgets s"
  by (auto simp: messageHookCallback_def Let_def createDeferred_def raisePostMessage_def resolve_def
      removeMessageHook_def split: option.splits)

lemma flag_resume:
  "isUsingIPyWidgets (snd (resume t s)) = isUsingIPyWidgets s"
  by (cases t) (auto simp: resume_def split: option.splits)

lemma flag_step:
  assumes "isUsingIPyWidgets s" and "step c e s = Some s'"
  shows "isUsingIPyWidgets s'"
proof (cases e)
  case (ReceiveMessage m)
  with assms show ?thesis by (auto simp: step_def dest: flag_receiveMessage)
next
  case Dispose
  with assms show ?thesis by (auto simp: step_def dispose_def disposeLoop_eq)
next
  case DidStartKernel
  with assms show ?thesis by (auto simp: step_def dest: flag_initialize split: if_splits)
next
  case (DidKernelSocketChange kern)
  with assms show ?thesis
    by (auto simp: step_def onDidKernelSocketChange_def dest!: flag_subscribeToKernelSocketImpl
        split: if_splits option.splits)
next
  case KernelRestarted
  with assms show ?thesis by (auto simp: step_def dest: flag_handleKernelRestarts split: if_splits)
next
  case KernelDisposed
  with assms show ?thesis by (auto simp: step_def)
next
  case (SocketReceive proto d)
  with assms show ?thesis by (auto simp: step_def flag_onKernelSocketMessage)
next
  case (SocketSend proto d)
  with assms show ?thesis by (auto simp: step_def flag_mirrorSend)
next
  case (IOPubHook m)
  with assms show ?thesis by (auto simp: step_def flag_messageHookCallback)
next
  case (Resume t)
  with assms show ?thesis by (auto simp: step_def flag_resume)
next
  case (ThirdPartyRegister k t)
  with assms show ?thesis
    by (auto simp: step_def registerCommTargetFor3rdPartyExtensions_def raisePostMessage_def
        split: option.splits)
next
  case (ThirdPartyRemove k t)
  with assms show ?thesis
    by (auto simp: step_def removeCommTargetFor3rdPartyExtensions_def split: option.splits)
next
  case (Surroundings k pk sm st t)
  with assms show ?thesis by (auto simp: step_def)
qed

lemma flag_run:
  "isUsingIPyWidgets s \<Longrightarrow> run c es s = Some s' \<Longrightarrow> isUsingIPyWidgets s'"
proof (induction es arbitrary: s)
  case Nil
  then show ?case by simp
next
  case (Cons e es)
  from Cons.prems(2) obtain s1 where s1: "step c e s = Some s1" "run c es s1 = Some s'"
    by (auto split: option.splits)
  from flag_step[OF Cons.prems(1) s1(1)] Cons.IH s1(2) show ?case by blast
qed

text \<open>
  Claim C10. Once \<open>isUsingIPyWidgets\<close> is set it stays set through every sequence of events
  that the dispatcher gets through, kernel socket changes and restarts among them; so in
  any state reached, the send hook of an accepted shell \<^verbatim>\<open>execute_request\<close> is suspended
  on a fresh pending wait for the render surface.
\<close>

theorem isUsingIPyWidgets_sticky:
  "isUsingIPyWidgets s \<and> run c es s = Some s' \<longrightarrow>
     isUsingIPyWidgets s' \<and>
     (\<forall>proto d m h. outboundExecute c proto d m h \<longrightarrow>
        fst (mirrorSend c proto d s') = AwaitMirror (nextDeferred s') \<and>
        deferreds (snd (mirrorSend c proto d s')) (nextDeferred s') = Pending)"
proof (intro impI)
  assume a: "isUsingIPyWidgets s \<and> run c es s = Some s'"
  then have f: "isUsingIPyWidgets s'" using flag_run by blast
  show "isUsingIPyWidgets s' \<and>
     (\<forall>proto d m h. outboundExecute c proto d m h \<longrightarrow>
        fst (mirrorSend c proto d s') = AwaitMirror (nextDeferred s') \<and>
        deferreds (snd (mirrorSend c proto d s')) (nextDeferred s') = Pending)"
    using f by (auto simp: mirrorSend_execute)
qed

theorem isUsingIPyWidgets_sticky_witness:
  "isUsingIPyWidgets tracking \<and>
   run sampleCollab
     [SocketSend ''v1'' (Text ''shell execute_request''), ReceiveMessage (Recv_msg (Text ''D'')),
      ReceiveMessage (Recv_RegisterMessageHook ''m1''),
      IOPubHook ((updateMsg ''m3'')\<lparr>parent_msg_id := ''m1''\<rparr>),
      DidKernelSocketChange liveKernel] tracking = Some restarted \<and>
   isUsingIPyWidgets restarted \<and>
   outboundExecute sampleCollab ''v1'' (Text ''shell execute_request'') execMsg
     \<lparr>msg_type = ''execute_request'', msg_id = ''m1''\<rparr> \<and>
   fst (mirrorSend sampleCollab ''v1'' (Text ''shell execute_request'') restarted) = AwaitMirror 3 \<and>
   deferreds (snd (mirrorSend sampleCollab ''v1'' (Text ''shell execute_request'') restarted)) 3 = Pending"
proof -
  let ?es = "[SocketSend ''v1'' (Text ''shell execute_request''), ReceiveMessage (Recv_msg (Text ''D'')),
      ReceiveMessage (Recv_RegisterMessageHook ''m1''),
      IOPubHook ((updateMsg ''m3'')\<lparr>parent_msg_id := ''m1''\<rparr>),
      DidKernelSocketChange liveKernel]"
  have o: "outboundExecute sampleCollab ''v1'' (Text ''shell execute_request'') execMsg
     \<lparr>msg_type = ''execute_request'', msg_id = ''m1''\<rparr>"
    by (simp add: outboundExecute_def sample_defs)
  have t: "isUsingIPyWidgets tracking"
    by (simp add: tracking_eval connected_eval sample_defs)
  have sb: "subscribedToKernelSocket busy"
    by (simp add: busy_eval mirroring_eval tracking_eval connected_eval sample_defs)
  have "run sampleCollab ?es tracking = onDidKernelSocketChange sampleCollab liveKernel busy"
    using sb unfolding busy_def mirroring_def
    by (simp add: step_def receiveMessage_def split: option.splits)
  then have r: "run sampleCollab ?es tracking = Some restarted"
    by (simp add: restarted_def restarted_eval)
  have "nextDeferred restarted = nextDeferred busy"
    by (simp add: restarted_def restarted_eval)
  then have n: "nextDeferred restarted = 3"
    by (simp add: busy_eval)
  from isUsingIPyWidgets_sticky[of tracking sampleCollab ?es restarted] t r o n
  show ?thesis by auto
qed

end
